theory Spec2Isabelle
  imports Main
begin

section \<open>Python values and dictionaries\<close>

text \<open>
  The agent exchanges JSON with the server and keeps Python dictionaries. A value is
  \<open>None\<close>, a boolean, an integer, a string, a list, a dictionary with string keys
  (kept in insertion order, as Python does) or an aware \<open>datetime\<close>, given by its
  whole number of seconds since the epoch. Floating point numbers are left out.
\<close>

datatype pyval =
    PNone
  | PBool bool
  | PInt int
  | PStr string
  | PList "pyval list"
  | PDict "(string \<times> pyval) list"
  | PDateTime int

type_synonym pydict = "(string \<times> pyval) list"

text \<open>\<^verbatim>\<open>d[k] = v\<close>: an existing key keeps its place, a new key goes to the end.\<close>

fun dict_set :: "'k \<Rightarrow> 'v \<Rightarrow> ('k \<times> 'v) list \<Rightarrow> ('k \<times> 'v) list" where
  "dict_set k v [] = [(k, v)]"
| "dict_set k v (p # ps) = (if fst p = k then (k, v) # ps else p # dict_set k v ps)"

text \<open>\<^verbatim>\<open>del d[k]\<close> for a key that is present.\<close>

definition dict_del :: "'k \<Rightarrow> ('k \<times> 'v) list \<Rightarrow> ('k \<times> 'v) list" where
  "dict_del k d = filter (\<lambda>p. fst p \<noteq> k) d"

text \<open>\<^verbatim>\<open>k in d\<close> and \<^verbatim>\<open>d.get(k)\<close>.\<close>

definition dict_has :: "'k \<Rightarrow> ('k \<times> 'v) list \<Rightarrow> bool" where
  "dict_has k d = (k \<in> set (map fst d))"

definition dict_get :: "('k \<times> 'v) list \<Rightarrow> 'k \<Rightarrow> 'v option" where
  "dict_get d k = map_of d k"

text \<open>\<^verbatim>\<open>d.get(k)\<close> as a Python value: \<open>None\<close> for a missing key.\<close>

definition py_get :: "pydict \<Rightarrow> string \<Rightarrow> pyval" where
  "py_get d k = (case map_of d k of None \<Rightarrow> PNone | Some v \<Rightarrow> v)"

definition py_get_default :: "pydict \<Rightarrow> string \<Rightarrow> pyval \<Rightarrow> pyval" where
  "py_get_default d k dflt = (case map_of d k of None \<Rightarrow> dflt | Some v \<Rightarrow> v)"

text \<open>Python's truth value of an object.\<close>

fun truthy :: "pyval \<Rightarrow> bool" where
  "truthy PNone = False"
| "truthy (PBool b) = b"
| "truthy (PInt i) = (i \<noteq> 0)"
| "truthy (PStr s) = (s \<noteq> [])"
| "truthy (PList xs) = (xs \<noteq> [])"
| "truthy (PDict kvs) = (kvs \<noteq> [])"
| "truthy (PDateTime t) = True"

fun is_mapping :: "pyval \<Rightarrow> bool" where
  "is_mapping (PDict kvs) = True"
| "is_mapping v = False"

text \<open>\<^verbatim>\<open>str(n)\<close> for an integer, as the f-strings of the source print it.\<close>

fun str_of_nat :: "nat \<Rightarrow> string" where
  "str_of_nat n =
     (if n < 10 then [char_of (48 + n)]
      else str_of_nat (n div 10) @ [char_of (48 + n mod 10)])"

declare str_of_nat.simps [simp del]

definition str_of_int :: "int \<Rightarrow> string" where
  "str_of_int i = (if i < 0 then CHR ''-'' # str_of_nat (nat (- i)) else str_of_nat (nat i))"

definition opt_str :: "string option \<Rightarrow> pyval" where
  "opt_str s = (case s of None \<Rightarrow> PNone | Some x \<Rightarrow> PStr x)"

definition opt_int :: "int option \<Rightarrow> pyval" where
  "opt_int i = (case i of None \<Rightarrow> PNone | Some x \<Rightarrow> PInt x)"

text \<open>
  Exceptions are values. \<open>IllTyped\<close> is not a Python exception: it marks an argument
  whose type is not the one the source's annotation declares, which the model leaves out.
\<close>

datatype error =
    DeviceError string
  | TypeError string
  | ValueError string
  | IllTyped string


section \<open>The device registry (\<^verbatim>\<open>device_pool.py\<close>)\<close>

definition DEFAULT_PORT :: int where "DEFAULT_PORT = 4370"
definition DEFAULT_PASSWORD :: int where "DEFAULT_PASSWORD = 0"
definition DEFAULT_TIMEOUT :: int where "DEFAULT_TIMEOUT = 10"

text \<open>\<^verbatim>\<open>DeviceInfo\<close>, the record of one managed device.\<close>

record device_info =
  di_device_id :: string
  di_device_ip :: string
  di_port :: int
  di_password :: int
  di_timeout :: int
  di_name :: "string option"
  di_location :: "string option"
  di_is_active :: bool
  di_last_seen :: "int option"

definition to_dict :: "device_info \<Rightarrow> pydict" where
  "to_dict d =
     [(''device_id'', PStr (di_device_id d)),
      (''device_ip'', PStr (di_device_ip d)),
      (''port'', PInt (di_port d)),
      (''name'', opt_str (di_name d)),
      (''location'', opt_str (di_location d)),
      (''is_active'', PBool (di_is_active d)),
      (''last_seen'', opt_int (di_last_seen d))]"

text \<open>
  \<^verbatim>\<open>ESSLDeviceCore.__init__\<close>: the connection parameters of one device. Between two
  operations of the registry a core holds no connection.
\<close>

record essl_core =
  core_device_ip :: string
  core_port :: int
  core_password :: int
  core_timeout :: int
  core_force_udp :: bool

definition ESSLDeviceCore :: "string \<Rightarrow> int \<Rightarrow> int \<Rightarrow> essl_core" where
  "ESSLDeviceCore ip p pw =
     \<lparr>core_device_ip = ip, core_port = p, core_password = pw,
      core_timeout = 10, core_force_udp = False\<rparr>"

text \<open>
  \<^verbatim>\<open>DevicePoolManager\<close>: the two dictionaries, in insertion order, and the content of
  \<^verbatim>\<open>data.json\<close> (\<open>None\<close> while the file does not exist).
\<close>

record pool =
  devices :: "(string \<times> device_info) list"
  device_cores :: "(string \<times> essl_core) list"
  data_file :: "(string \<times> pydict) list option"

text \<open>
  \<^verbatim>\<open>_save_devices\<close>. Writing may fail; the exception is caught and printed, and the
  file is then taken to be as it was. \<open>disk_ok\<close> says whether the write goes through.
\<close>

definition save_devices :: "bool \<Rightarrow> pool \<Rightarrow> pool" where
  "save_devices disk_ok p =
     (if disk_ok
      then p\<lparr>data_file := Some (map (\<lambda>kv. (fst kv, to_dict (snd kv))) (devices p))\<rparr>
      else p)"

text \<open>
  \<^verbatim>\<open>register_device\<close>. The port and the password are \<open>None\<close> when the caller passes
  Python's \<open>None\<close>; a caller that leaves the argument out passes the default.
\<close>

definition register_device ::
  "bool \<Rightarrow> pool \<Rightarrow> string \<Rightarrow> string \<Rightarrow> int option \<Rightarrow> int option \<Rightarrow>
   string option \<Rightarrow> string option \<Rightarrow> pool \<times> pydict" where
  "register_device disk_ok p dev_id dev_ip port_arg password_arg name_arg location_arg =
     (if dict_has dev_id (devices p) then
        (p, [(''success'', PBool False),
             (''message'', PStr (''Device '' @ dev_id @ '' already registered'')),
             (''device_id'', PStr dev_id)])
      else
        let actual_port = (case port_arg of Some x \<Rightarrow> x | None \<Rightarrow> DEFAULT_PORT);
            actual_password = (case password_arg of Some x \<Rightarrow> x | None \<Rightarrow> DEFAULT_PASSWORD);
            info = \<lparr>di_device_id = dev_id, di_device_ip = dev_ip, di_port = actual_port,
                    di_password = actual_password, di_timeout = DEFAULT_TIMEOUT,
                    di_name = name_arg, di_location = location_arg,
                    di_is_active = True, di_last_seen = None\<rparr>;
            core = ESSLDeviceCore dev_ip actual_port actual_password;
            p1 = p\<lparr>devices := dict_set dev_id info (devices p),
                    device_cores := dict_set dev_id core (device_cores p)\<rparr>;
            p2 = save_devices disk_ok p1
        in (p2, [(''success'', PBool True),
                 (''message'', PStr (''Device '' @ dev_id @ '' registered successfully'')),
                 (''device'', PDict (to_dict info))]))"

text \<open>\<^verbatim>\<open>unregister_device\<close>. Disconnecting the core leaves nothing behind in the registry.\<close>

definition unregister_device :: "bool \<Rightarrow> pool \<Rightarrow> string \<Rightarrow> pool \<times> pydict" where
  "unregister_device disk_ok p dev_id =
     (if \<not> dict_has dev_id (devices p) then
        (p, [(''success'', PBool False),
             (''message'', PStr (''Device '' @ dev_id @ '' not found''))])
      else
        let cores1 = (if dict_has dev_id (device_cores p)
                      then dict_del dev_id (device_cores p) else device_cores p);
            p1 = p\<lparr>device_cores := cores1, devices := dict_del dev_id (devices p)\<rparr>;
            p2 = save_devices disk_ok p1
        in (p2, [(''success'', PBool True),
                 (''message'', PStr (''Device '' @ dev_id @ '' unregistered successfully''))]))"

text \<open>A sequence of \<^verbatim>\<open>register_device\<close> calls, each with its own arguments.\<close>

type_synonym register_args =
  "string \<times> string \<times> int option \<times> int option \<times> string option \<times> string option"

definition register_call :: "bool \<Rightarrow> pool \<Rightarrow> register_args \<Rightarrow> pool \<times> pydict" where
  "register_call disk_ok p a =
     (case a of (i, ip, po, pw, n, l) \<Rightarrow> register_device disk_ok p i ip po pw n l)"

fun register_all :: "bool \<Rightarrow> pool \<Rightarrow> register_args list \<Rightarrow> pool" where
  "register_all disk_ok p [] = p"
| "register_all disk_ok p (a # as) = register_all disk_ok (fst (register_call disk_ok p a)) as"

text \<open>The number of records the registry holds for one device id.\<close>

definition records_for :: "string \<Rightarrow> pool \<Rightarrow> nat" where
  "records_for dev_id p = length (filter (\<lambda>kv. fst kv = dev_id) (devices p))"

text \<open>A Python dictionary has every key once.\<close>

definition wf_pool :: "pool \<Rightarrow> bool" where
  "wf_pool p = (distinct (map fst (devices p)) \<and> distinct (map fst (device_cores p)))"


section \<open>The device core (\<^verbatim>\<open>essl.py\<close>)\<close>

text \<open>
  What the driver hands over. A \<^verbatim>\<open>User\<close> object of the driver has these attributes; the
  card number is an integer on the device and a string in the signature of
  \<^verbatim>\<open>update_user\<close>, so it is kept as a Python value.
\<close>

record zk_user =
  u_uid :: int
  u_user_id :: string
  u_name :: string
  u_privilege :: int
  u_password :: string
  u_card :: pyval

text \<open>
  An \<^verbatim>\<open>Attendance\<close> object of the driver. Its timestamp is a naive \<open>datetime\<close> on the
  device's clock, given as the seconds from 1970-01-01 00:00:00 on that clock, or
  \<open>None\<close> when the attribute is not a \<open>datetime\<close>.
\<close>

record raw_attendance =
  a_user_id :: string
  a_timestamp :: "int option"
  a_status :: int
  a_punch :: int
  a_uid :: int

text \<open>
  An open connection, as far as the core uses it: what \<^verbatim>\<open>get_users()\<close> and
  \<^verbatim>\<open>get_attendance()\<close> give (\<open>Inl\<close> is the message of the exception raised), on which
  arguments \<^verbatim>\<open>set_user\<close> raises, and the \<^verbatim>\<open>set_user\<close> calls that went through, oldest
  first.
\<close>

record zk_conn =
  zk_users :: "string + zk_user list"
  zk_attendance :: "string + raw_attendance list option"
  zk_set_user_fails :: "zk_user \<Rightarrow> string option"
  zk_written :: "zk_user list"

definition not_connected :: error where
  "not_connected = DeviceError ''Not connected to device. Call connect() first.''"

text \<open>
  \<^verbatim>\<open>update_user\<close>. Every exception inside the \<^verbatim>\<open>try\<close>, the \<open>DeviceError\<close> for a
  missing user among them, is raised again as a \<open>DeviceError\<close>.
\<close>

definition update_user ::
  "zk_conn option \<Rightarrow> int \<Rightarrow> string option \<Rightarrow> int option \<Rightarrow> string option \<Rightarrow>
   pyval option \<Rightarrow> (error + pydict) \<times> zk_conn option" where
  "update_user conn uid name_arg privilege_arg password_arg card_arg =
     (case conn of
        None \<Rightarrow> (Inl not_connected, None)
      | Some c \<Rightarrow>
         (case zk_users c of
            Inl msg \<Rightarrow> (Inl (DeviceError (''Failed to update user: '' @ msg)), Some c)
          | Inr users \<Rightarrow>
             (case find (\<lambda>u. u_uid u = uid) users of
                None \<Rightarrow>
                  (Inl (DeviceError (''Failed to update user: User with UID '' @ str_of_int uid
                                      @ '' not found on device'')), Some c)
              | Some existing_user \<Rightarrow>
                  let updated_name = (case name_arg of Some x \<Rightarrow> x | None \<Rightarrow> u_name existing_user);
                      updated_privilege =
                        (case privilege_arg of Some x \<Rightarrow> x | None \<Rightarrow> u_privilege existing_user);
                      updated_password =
                        (case password_arg of Some x \<Rightarrow> x | None \<Rightarrow> u_password existing_user);
                      updated_card = (case card_arg of Some x \<Rightarrow> x | None \<Rightarrow> u_card existing_user);
                      written = \<lparr>u_uid = uid, u_user_id = u_user_id existing_user,
                                 u_name = updated_name, u_privilege = updated_privilege,
                                 u_password = updated_password, u_card = updated_card\<rparr>
                  in (case zk_set_user_fails c written of
                        Some msg \<Rightarrow> (Inl (DeviceError (''Failed to update user: '' @ msg)), Some c)
                      | None \<Rightarrow>
                          (Inr [(''success'', PBool True),
                                (''message'', PStr (''User '' @ str_of_int uid
                                                    @ '' updated successfully''))],
                           Some (c\<lparr>zk_written := zk_written c @ [written]\<rparr>))))))"

text \<open>The dictionary \<^verbatim>\<open>get_attendance\<close> builds for one record.\<close>

record attendance_log =
  l_user_id :: string
  l_timestamp :: "int option"
  l_status :: int
  l_punch :: int
  l_uid :: int

text \<open>
  \<^verbatim>\<open>_format_datetime\<close>: the naive time is read as Indian Standard Time (UTC+5:30, 19800
  seconds) and turned into an epoch.
\<close>

definition format_datetime :: "int option \<Rightarrow> int option" where
  "format_datetime dt = (case dt of None \<Rightarrow> None | Some t \<Rightarrow> Some (t - 19800))"

definition log_dict :: "raw_attendance \<Rightarrow> attendance_log" where
  "log_dict r =
     \<lparr>l_user_id = a_user_id r, l_timestamp = format_datetime (a_timestamp r),
      l_status = a_status r, l_punch = a_punch r, l_uid = a_uid r\<rparr>"

text \<open>
  An aware \<open>datetime\<close>, as \<^verbatim>\<open>get_attendance\<close> is given for its bounds, is an instant:
  the microseconds from 1970-01-01T00:00:00Z, which is the resolution of the type.
  \<^verbatim>\<open>int(dt.astimezone(timezone.utc).timestamp())\<close> is the number of whole seconds of
  that instant, cut towards zero. (The seconds pass through a float, which holds them
  to the microsecond for instants before the year 2500.)
\<close>

definition epoch_of :: "int \<Rightarrow> int" where
  "epoch_of us = (if 0 \<le> us then us div 1000000 else - ((- us) div 1000000))"

text \<open>\<^verbatim>\<open>l["timestamp"] and l["timestamp"] >= start_epoch\<close>, as a truth value.\<close>

definition ts_at_least :: "int \<Rightarrow> attendance_log \<Rightarrow> bool" where
  "ts_at_least start_epoch l =
     (case l_timestamp l of None \<Rightarrow> False | Some t \<Rightarrow> t \<noteq> 0 \<and> t \<ge> start_epoch)"

definition ts_at_most :: "int \<Rightarrow> attendance_log \<Rightarrow> bool" where
  "ts_at_most end_epoch l =
     (case l_timestamp l of None \<Rightarrow> False | Some t \<Rightarrow> t \<noteq> 0 \<and> t \<le> end_epoch)"

text \<open>The sort key \<^verbatim>\<open>x["timestamp"] or 0\<close>.\<close>

definition sort_ts :: "attendance_log \<Rightarrow> int" where
  "sort_ts l = (case l_timestamp l of None \<Rightarrow> 0 | Some t \<Rightarrow> t)"

text \<open>
  \<^verbatim>\<open>logs.sort(key=..., reverse=True)\<close>: descending, and stable, so records with equal
  keys keep the order they had.
\<close>

definition sort_newest_first :: "attendance_log list \<Rightarrow> attendance_log list" where
  "sort_newest_first logs = sort_key (\<lambda>l. - sort_ts l) logs"

text \<open>The slice \<^verbatim>\<open>logs[:limit]\<close>; a negative limit counts from the end.\<close>

definition slice_to :: "int \<Rightarrow> 'a list \<Rightarrow> 'a list" where
  "slice_to n xs = (if n \<ge> 0 then take (nat n) xs else take (length xs - nat (- n)) xs)"

text \<open>
  \<^verbatim>\<open>get_attendance\<close>. A bound is an aware \<open>datetime\<close>, an instant in microseconds,
  which is always true in a condition, or it is \<open>None\<close>; a value that is false in a
  condition, such as the timestamp 0 that the command handler passes on as it is, does
  what \<open>None\<close> does and is \<open>None\<close> here. A string is true when it is not empty, an
  integer when it is not zero.
\<close>

definition get_attendance ::
  "zk_conn option \<Rightarrow> int option \<Rightarrow> int option \<Rightarrow> string option \<Rightarrow> int option \<Rightarrow>
   error + attendance_log list" where
  "get_attendance conn start_time end_time user_id limit =
     (case conn of
        None \<Rightarrow> Inl not_connected
      | Some c \<Rightarrow>
         (case zk_attendance c of
            Inl msg \<Rightarrow> Inl (DeviceError (''Failed to get attendance: '' @ msg))
          | Inr raw \<Rightarrow>
              let raw_logs = (case raw of None \<Rightarrow> [] | Some rs \<Rightarrow> rs);
                  logs0 = map log_dict raw_logs;
                  logs1 = (case start_time of
                             Some s \<Rightarrow> (let start_epoch = epoch_of s
                                        in filter (ts_at_least start_epoch) logs0)
                           | None \<Rightarrow> logs0);
                  logs2 = (case end_time of
                             Some e \<Rightarrow> (let end_epoch = epoch_of e
                                        in filter (ts_at_most end_epoch) logs1)
                           | None \<Rightarrow> logs1);
                  logs3 = (case user_id of
                             Some u \<Rightarrow> (if u \<noteq> [] then filter (\<lambda>l. l_user_id l = u) logs2
                                        else logs2)
                           | None \<Rightarrow> logs2);
                  logs4 = sort_newest_first logs3;
                  logs5 = (case limit of
                             Some n \<Rightarrow> (if n \<noteq> 0 then slice_to n logs4 else logs4)
                           | None \<Rightarrow> logs4)
              in Inr logs5))"

text \<open>
  The reading of the interface \<^verbatim>\<open>attendance(since?, until?, user_id?, limit?)\<close> in the
  words of the specification and of the docstring (records after \<open>start_time\<close>, before
  \<open>end_time\<close>, of the user, at most \<open>limit\<close> of them): a bound that is given keeps the
  records whose timestamp, in seconds, is not on the wrong side of that instant, a user
  id that is given keeps the records of that user, the result is sorted newest first
  and then cut to the limit.
\<close>

definition in_window :: "int option \<Rightarrow> int option \<Rightarrow> attendance_log \<Rightarrow> bool" where
  "in_window start_time end_time l =
     ((case start_time of None \<Rightarrow> True
       | Some s \<Rightarrow> (case l_timestamp l of None \<Rightarrow> False | Some t \<Rightarrow> s \<le> t * 1000000))
      \<and> (case end_time of None \<Rightarrow> True
         | Some e \<Rightarrow> (case l_timestamp l of None \<Rightarrow> False | Some t \<Rightarrow> t * 1000000 \<le> e)))"

definition user_matches :: "string option \<Rightarrow> attendance_log \<Rightarrow> bool" where
  "user_matches user_id l = (case user_id of None \<Rightarrow> True | Some u \<Rightarrow> l_user_id l = u)"

definition attendance_spec ::
  "raw_attendance list \<Rightarrow> int option \<Rightarrow> int option \<Rightarrow> string option \<Rightarrow> int option \<Rightarrow>
   attendance_log list" where
  "attendance_spec raw start_time end_time user_id limit =
     (let wanted = filter (\<lambda>l. in_window start_time end_time l \<and> user_matches user_id l)
                     (map log_dict raw);
          sorted_logs = sort_newest_first wanted
      in case limit of None \<Rightarrow> sorted_logs | Some n \<Rightarrow> slice_to n sorted_logs)"


section \<open>Executing operations on a device (\<^verbatim>\<open>DevicePoolManager\<close>)\<close>

text \<open>
  What happens inside \<^verbatim>\<open>with device_core.connection():\<close> is up to the device and the
  driver. The attribute looked up may be missing or false (\<open>NoSuchAttr\<close>), the call may
  return a value or raise; a failed \<^verbatim>\<open>connect()\<close> raises \<open>DeviceError\<close>.
\<close>

datatype call_outcome =
    Returns pyval
  | NoSuchAttr
  | RaisesTypeError string
  | RaisesDeviceError string
  | RaisesOther string

text \<open>
  The surroundings of the registry and of the command handler: the clock, whether
  \<^verbatim>\<open>data.json\<close> can be written, the configuration, and the devices.
\<close>

record world =
  w_now :: int
  w_disk_ok :: bool
  w_agent_id :: string
  w_mac_address :: "string option"
  w_run :: "essl_core \<Rightarrow> string \<Rightarrow> pydict \<Rightarrow> call_outcome"
  w_is_online :: "essl_core \<Rightarrow> bool"

definition get_device_core :: "pool \<Rightarrow> string \<Rightarrow> essl_core option" where
  "get_device_core p dev_id = map_of (device_cores p) dev_id"

definition get_device_core_by_ip :: "pool \<Rightarrow> string \<Rightarrow> essl_core option" where
  "get_device_core_by_ip p ip =
     (case find (\<lambda>kv. di_device_ip (snd kv) = ip) (devices p) of
        Some kv \<Rightarrow> map_of (device_cores p) (fst kv)
      | None \<Rightarrow> Some (ESSLDeviceCore ip 4370 0))"

definition get_device_info :: "pool \<Rightarrow> string \<Rightarrow> device_info option" where
  "get_device_info p dev_id = map_of (devices p) dev_id"

definition list_devices :: "pool \<Rightarrow> pyval list" where
  "list_devices p = map (\<lambda>kv. PDict (to_dict (snd kv))) (devices p)"

definition get_active_devices :: "pool \<Rightarrow> pydict list" where
  "get_active_devices p = map to_dict (filter di_is_active (map snd (devices p)))"

definition update_last_seen :: "world \<Rightarrow> pool \<Rightarrow> string \<Rightarrow> pool" where
  "update_last_seen w p dev_id =
     p\<lparr>devices := map (\<lambda>kv. if fst kv = dev_id
                              then (fst kv, (snd kv)\<lparr>di_last_seen := Some (w_now w)\<rparr>)
                              else kv) (devices p)\<rparr>"

definition routing_params :: "string list" where
  "routing_params = [''device_id'', ''device_ip'', ''agent_id'']"

definition execute_on_device ::
  "world \<Rightarrow> pool \<Rightarrow> string \<Rightarrow> string \<Rightarrow> pydict \<Rightarrow> pool \<times> pydict" where
  "execute_on_device w p device_identifier operation kwargs =
     (let device_core = (if dict_has device_identifier (devices p)
                         then get_device_core p device_identifier
                         else get_device_core_by_ip p device_identifier);
          dev_id = device_identifier
      in case device_core of
           None \<Rightarrow>
             (p, [(''success'', PBool False),
                  (''error'', PStr (''Device '' @ device_identifier @ '' not found'')),
                  (''device_id'', PStr dev_id)])
         | Some core \<Rightarrow>
             let method_kwargs = filter (\<lambda>kv. fst kv \<notin> set routing_params) kwargs
             in case w_run w core operation method_kwargs of
                  NoSuchAttr \<Rightarrow>
                    (p, [(''success'', PBool False),
                         (''error'', PStr (''Unknown operation: '' @ operation)),
                         (''device_id'', PStr dev_id)])
                | Returns r \<Rightarrow>
                    (update_last_seen w p dev_id,
                     [(''success'', PBool True),
                      (''device_id'', PStr dev_id),
                      (''operation'', PStr operation),
                      (''result'', r)])
                | RaisesTypeError msg \<Rightarrow>
                    (p, [(''success'', PBool False),
                         (''error'', PStr (''Parameter error: '' @ msg)),
                         (''device_id'', PStr dev_id),
                         (''operation'', PStr operation),
                         (''hint'',
                          PStr ''Check if method signature matches provided parameters'')])
                | RaisesDeviceError msg \<Rightarrow>
                    (p, [(''success'', PBool False),
                         (''error'', PStr msg),
                         (''device_id'', PStr dev_id),
                         (''operation'', PStr operation)])
                | RaisesOther msg \<Rightarrow>
                    (p, [(''success'', PBool False),
                         (''error'', PStr (''Unexpected error: '' @ msg)),
                         (''device_id'', PStr dev_id),
                         (''operation'', PStr operation)]))"

text \<open>
  \<^verbatim>\<open>check_device_health\<close>. The extended information is the outcome of
  \<^verbatim>\<open>get_device_info\<close> inside a connection.
\<close>

definition check_device_health :: "world \<Rightarrow> pool \<Rightarrow> string \<Rightarrow> pool \<times> pydict" where
  "check_device_health w p dev_id =
     (case (get_device_core p dev_id, get_device_info p dev_id) of
        (Some core, Some info) \<Rightarrow>
          let is_online = w_is_online w core;
              health = [(''device_id'', PStr dev_id),
                        (''device_ip'', PStr (di_device_ip info)),
                        (''online'', PBool is_online),
                        (''last_seen'', opt_int (di_last_seen info))]
          in if is_online then
               (case w_run w core ''get_device_info'' [] of
                  Returns (PDict i) \<Rightarrow>
                    (update_last_seen w p dev_id,
                     health @ [(''firmware'', py_get i ''firmware''),
                               (''platform'', py_get i ''platform''),
                               (''serial_number'', py_get i ''serial_number''),
                               (''device_time'', py_get i ''device_time'')])
                | RaisesDeviceError msg \<Rightarrow>
                    (p, health @ [(''connection_error'', PStr msg),
                                  (''can_connect'', PBool False)])
                | RaisesTypeError msg \<Rightarrow> (p, health @ [(''unexpected_error'', PStr msg)])
                | RaisesOther msg \<Rightarrow> (p, health @ [(''unexpected_error'', PStr msg)])
                | _ \<Rightarrow>
                    (p, health @ [(''unexpected_error'', PStr ''object has no attribute get'')]))
             else (p, health)
      | _ \<Rightarrow>
          (p, [(''device_id'', PStr dev_id),
               (''online'', PBool False),
               (''error'', PStr ''Device not found'')]))"


section \<open>The command handler (\<^verbatim>\<open>MultiDeviceCommandHandler\<close>)\<close>

text \<open>
  A command as the server sends it. A field is \<open>None\<close> when the key is missing; the
  parameters are a mapping from names to values.
\<close>

record command_envelope =
  ce_id :: "string option"
  ce_command :: "string option"
  ce_params :: "pydict option"
  ce_device_id :: "string option"
  ce_device_ip :: "string option"

record result_envelope =
  re_id :: "string option"
  re_agent_id :: string
  re_command :: "string option"
  re_mac_address :: "string option"
  re_result :: pyval
  re_device_ip :: pyval
  re_device_id :: pyval
  re_success :: pyval
  re_timestamp :: int

definition make_envelope ::
  "world \<Rightarrow> string option \<Rightarrow> string option \<Rightarrow> pyval \<Rightarrow> pyval \<Rightarrow> pyval \<Rightarrow> pyval \<Rightarrow>
   result_envelope" where
  "make_envelope w cid command result dev_ip dev_id success =
     \<lparr>re_id = cid, re_agent_id = w_agent_id w, re_command = command,
      re_mac_address = w_mac_address w, re_result = result, re_device_ip = dev_ip,
      re_device_id = dev_id, re_success = success, re_timestamp = w_now w\<rparr>"

text \<open>Arguments taken out of the parameters, at the types the registry declares.\<close>

fun arg_str :: "pyval \<Rightarrow> error + string" where
  "arg_str (PStr s) = Inr s"
| "arg_str v = Inl (IllTyped ''str expected'')"

fun arg_opt_str :: "pyval \<Rightarrow> error + string option" where
  "arg_opt_str PNone = Inr None"
| "arg_opt_str (PStr s) = Inr (Some s)"
| "arg_opt_str v = Inl (IllTyped ''str or None expected'')"

fun arg_opt_int :: "pyval \<Rightarrow> error + int option" where
  "arg_opt_int PNone = Inr None"
| "arg_opt_int (PInt i) = Inr (Some i)"
| "arg_opt_int v = Inl (IllTyped ''int or None expected'')"

text \<open>
  The branches of \<^verbatim>\<open>_execute_management_command\<close>: the new registry and \<open>result\<close>.
  No record has the key \<open>None\<close>, so a missing \<open>device_id\<close> is a device that is not found.
\<close>

definition management_result ::
  "world \<Rightarrow> pool \<Rightarrow> string \<Rightarrow> pydict \<Rightarrow> error + (pool \<times> pyval)" where
  "management_result w p command params =
     (if command = ''register_device'' then
        (case arg_str (py_get params ''device_id'') of Inl e \<Rightarrow> Inl e | Inr dev_id \<Rightarrow>
         case arg_str (py_get params ''device_ip'') of Inl e \<Rightarrow> Inl e | Inr dev_ip \<Rightarrow>
         case arg_opt_int (py_get_default params ''port'' (PInt DEFAULT_PORT)) of
           Inl e \<Rightarrow> Inl e | Inr port_arg \<Rightarrow>
         case arg_opt_int (py_get_default params ''password'' (PInt DEFAULT_PASSWORD)) of
           Inl e \<Rightarrow> Inl e | Inr password_arg \<Rightarrow>
         case arg_opt_str (py_get params ''name'') of Inl e \<Rightarrow> Inl e | Inr name_arg \<Rightarrow>
         case arg_opt_str (py_get params ''location'') of Inl e \<Rightarrow> Inl e | Inr location_arg \<Rightarrow>
           (case register_device (w_disk_ok w) p dev_id dev_ip port_arg password_arg
                   name_arg location_arg of
              (p', r) \<Rightarrow> Inr (p', PDict r)))
      else if command = ''unregister_device'' then
        (case py_get params ''device_id'' of
           PStr dev_id \<Rightarrow>
             (case unregister_device (w_disk_ok w) p dev_id of (p', r) \<Rightarrow> Inr (p', PDict r))
         | PNone \<Rightarrow>
             Inr (p, PDict [(''success'', PBool False),
                            (''message'', PStr ''Device None not found'')])
         | _ \<Rightarrow> Inl (IllTyped ''str expected''))
      else if command = ''list_devices'' then
        Inr (p, PList (list_devices p))
      else if command = ''device_health'' then
        (case py_get params ''device_id'' of
           PStr dev_id \<Rightarrow>
             (case check_device_health w p dev_id of (p', r) \<Rightarrow> Inr (p', PDict r))
         | PNone \<Rightarrow>
             Inr (p, PDict [(''device_id'', PNone),
                            (''online'', PBool False),
                            (''error'', PStr ''Device not found'')])
         | _ \<Rightarrow> Inl (IllTyped ''str expected''))
      else Inr (p, PDict []))"

text \<open>
  \<^verbatim>\<open>_execute_management_command\<close>. Building the answer calls \<^verbatim>\<open>result.get\<close>; on a
  result that is a list this raises \<open>AttributeError\<close>, which the \<^verbatim>\<open>except\<close> clause turns
  into a \<open>DeviceError\<close> that leaves the method.
\<close>

definition no_get_on_list :: string where
  "no_get_on_list =
     ''Failed to execute management command: '' @ [CHR 0x27] @ ''list'' @ [CHR 0x27]
     @ '' object has no attribute '' @ [CHR 0x27] @ ''get'' @ [CHR 0x27]"

definition execute_management_command ::
  "world \<Rightarrow> pool \<Rightarrow> string \<Rightarrow> pydict \<Rightarrow> string option \<Rightarrow>
   error + (pool \<times> result_envelope)" where
  "execute_management_command w p command params command_id =
     (case management_result w p command params of
        Inl e \<Rightarrow> Inl e
      | Inr (p', result) \<Rightarrow>
          (case result of
             PDict d \<Rightarrow>
               Inr (p', make_envelope w command_id (Some command) result
                          (py_get_default params ''device_ip'' (PStr []))
                          (py_get_default params ''device_id'' (PStr []))
                          (py_get_default d ''success'' (PBool True)))
           | _ \<Rightarrow> Inl (DeviceError no_get_on_list)))"

definition management_commands :: "string list" where
  "management_commands =
     [''register_device'', ''unregister_device'', ''list_devices'', ''device_health'']"

definition command_map :: "(string \<times> string) list" where
  "command_map =
     [(''get_users'', ''get_users''),
      (''create_user'', ''create_user''),
      (''update_user'', ''update_user''),
      (''delete_user'', ''delete_user''),
      (''get_attendance'', ''get_attendance''),
      (''get_device_info'', ''get_device_info'')]"

text \<open>\<^verbatim>\<open>a or b\<close> on two optional strings, and the truth value of an optional string.\<close>

definition str_or :: "string option \<Rightarrow> string option \<Rightarrow> string option" where
  "str_or a b = (case a of Some s \<Rightarrow> (if s \<noteq> [] then Some s else b) | None \<Rightarrow> b)"

definition str_truthy :: "string option \<Rightarrow> bool" where
  "str_truthy a = (case a of Some s \<Rightarrow> s \<noteq> [] | None \<Rightarrow> False)"

text \<open>
  \<^verbatim>\<open>datetime.fromtimestamp(t, tz=timezone.utc)\<close>: an integer (a boolean counts as one)
  within the years 1 to 9999 gives a \<open>datetime\<close>; outside that range the call raises
  (\<open>ValueError\<close> or \<open>OverflowError\<close>, here one error), and on any other value it raises
  \<open>TypeError\<close>.
\<close>

fun fromtimestamp :: "pyval \<Rightarrow> error + pyval" where
  "fromtimestamp (PInt t) =
     (if - 62135596800 \<le> t \<and> t \<le> 253402300799 then Inr (PDateTime t)
      else Inl (ValueError ''year is out of range''))"
| "fromtimestamp (PBool b) = Inr (PDateTime (if b then 1 else 0))"
| "fromtimestamp v = Inl (TypeError ''an integer is required'')"

text \<open>The special handling of \<^verbatim>\<open>get_attendance\<close>: what \<open>params\<close> is afterwards.\<close>

definition attendance_params :: "pydict \<Rightarrow> error + pydict" where
  "attendance_params params =
     (let start_time = py_get params ''start_time'';
          end_time = py_get params ''end_time'';
          limit = py_get_default params ''limit'' (PInt 1000)
      in case (if truthy start_time
               then (case fromtimestamp start_time of
                       Inl e \<Rightarrow> Inl e
                     | Inr d \<Rightarrow> Inr (dict_set ''start_time'' d params))
               else Inr params) of
           Inl e \<Rightarrow> Inl e
         | Inr params1 \<Rightarrow>
            (case (if truthy end_time
                   then (case fromtimestamp end_time of
                           Inl e \<Rightarrow> Inl e
                         | Inr d \<Rightarrow> Inr (dict_set ''end_time'' d params1))
                   else Inr params1) of
               Inl e \<Rightarrow> Inl e
             | Inr params2 \<Rightarrow> Inr (dict_set ''limit'' limit params2)))"

text \<open>The normalisation of the operation's result.\<close>

definition format_result :: "string \<Rightarrow> pyval \<Rightarrow> pyval" where
  "format_result command operation_result =
     (case operation_result of
        PList xs \<Rightarrow>
          (if command = ''get_users'' then
             PDict [(''users'', PList xs), (''count'', PInt (int (length xs)))]
           else if command = ''get_attendance'' then
             PDict [(''logs'', PList xs), (''count'', PInt (int (length xs)))]
           else
             PDict [(''items'', PList xs), (''count'', PInt (int (length xs)))])
      | PDict d \<Rightarrow> PDict d
      | v \<Rightarrow> PDict [(''value'', v)])"

text \<open>
  The call \<^verbatim>\<open>execute_on_device(device_identifier=..., operation=..., **params)\<close>
  raises \<open>TypeError\<close> when \<open>params\<close> names one of the method's own parameters.
\<close>

definition clashing_keyword :: "pydict \<Rightarrow> bool" where
  "clashing_keyword params =
     (dict_has ''self'' params \<or> dict_has ''device_identifier'' params
      \<or> dict_has ''operation'' params)"

text \<open>\<^verbatim>\<open>execute_command\<close>.\<close>

definition execute_command ::
  "world \<Rightarrow> pool \<Rightarrow> command_envelope \<Rightarrow> error + (pool \<times> result_envelope)" where
  "execute_command w p command_data =
     (let cid = ce_id command_data;
          command = ce_command command_data;
          params = (case ce_params command_data of None \<Rightarrow> [] | Some d \<Rightarrow> d)
      in case (case command of
                 Some c \<Rightarrow> (if c \<in> set management_commands then Some c else None)
               | None \<Rightarrow> None) of
           Some c \<Rightarrow> execute_management_command w p c params cid
         | None \<Rightarrow>
            (let device_identifier =
                   str_or (ce_device_id command_data) (ce_device_ip command_data)
             in case (if str_truthy device_identifier then device_identifier else None) of
                  None \<Rightarrow>
                    Inr (p, make_envelope w cid command
                              (PDict [(''error'',
                                       PStr ''Missing device_id or device_ip in command'')])
                              (PStr []) (PStr []) (PBool False))
                | Some ident \<Rightarrow>
                   (case (if str_truthy command then command else None) of
                      None \<Rightarrow>
                        Inr (p, make_envelope w cid command
                                  (PDict [(''error'', PStr ''Missing command in request'')])
                                  (PStr []) (PStr ident) (PBool False))
                    | Some c \<Rightarrow>
                       (case map_of command_map c of
                          None \<Rightarrow>
                            Inr (p, make_envelope w cid command
                                      (PDict [(''error'', PStr (''Unknown command: '' @ c))])
                                      (PStr []) (PStr ident) (PBool False))
                        | Some operation \<Rightarrow>
                           (case (if c = ''get_attendance'' then attendance_params params
                                  else Inr params) of
                              Inl e \<Rightarrow> Inl e
                            | Inr params' \<Rightarrow>
                               if clashing_keyword params'
                               then Inl (TypeError
                                      ''execute_on_device() got multiple values for argument'')
                               else
                                 (case execute_on_device w p ident operation params' of
                                    (p', result) \<Rightarrow>
                                      let operation_result =
                                            py_get_default result ''result'' (PDict result);
                                          formatted_result = format_result c operation_result
                                      in Inr (p', make_envelope w cid command formatted_result
                                                  (case map_of (devices p') ident of
                                                     Some info \<Rightarrow> PStr (di_device_ip info)
                                                   | None \<Rightarrow> PStr ident)
                                                  (PStr ident)
                                                  (py_get_default result ''success''
                                                     (PBool True)))))))))"

text \<open>That one string occurs inside another.\<close>

fun starts_with :: "string \<Rightarrow> string \<Rightarrow> bool" where
  "starts_with [] t = True"
| "starts_with (c # s) [] = False"
| "starts_with (c # s) (d # t) = (c = d \<and> starts_with s t)"

fun mentions :: "string \<Rightarrow> string \<Rightarrow> bool" where
  "mentions s [] = (s = [])"
| "mentions s (d # t) = (starts_with s (d # t) \<or> mentions s t)"

text \<open>The routing target of a command, and that the command is not a management one.\<close>

definition routing_target :: "command_envelope \<Rightarrow> string option" where
  "routing_target command_data =
     str_or (ce_device_id command_data) (ce_device_ip command_data)"

definition device_command :: "command_envelope \<Rightarrow> bool" where
  "device_command command_data =
     (case ce_command command_data of
        None \<Rightarrow> True
      | Some c \<Rightarrow> c \<notin> set management_commands)"


section \<open>The stream engine (\<^verbatim>\<open>stream_manager.py\<close>)\<close>

definition MAX_RETRY_ATTEMPTS :: nat where "MAX_RETRY_ATTEMPTS = 3"
definition RETRY_DELAY_SECONDS :: nat where "RETRY_DELAY_SECONDS = 5"
definition EVENT_QUEUE_MAX_SIZE :: nat where "EVENT_QUEUE_MAX_SIZE = 1000"

datatype StreamMode = INITIALIZING | SYNCING | LIVE | RECONNECTING | STOPPED | ERROR

datatype EventType = HISTORICAL | REALTIME

fun mode_value :: "StreamMode \<Rightarrow> string" where
  "mode_value INITIALIZING = ''initializing''"
| "mode_value SYNCING = ''syncing''"
| "mode_value LIVE = ''live''"
| "mode_value RECONNECTING = ''reconnecting''"
| "mode_value STOPPED = ''stopped''"
| "mode_value ERROR = ''error''"

fun event_type_value :: "EventType \<Rightarrow> string" where
  "event_type_value HISTORICAL = ''historical''"
| "event_type_value REALTIME = ''realtime''"

text \<open>The dictionary \<^verbatim>\<open>self.stats\<close>; an error record is a message and its time.\<close>

record stream_stats =
  total_events_sent :: int
  historical_events_sent :: int
  realtime_events_sent :: int
  failed_events :: int
  last_event_time :: "int option"
  started_at :: "int option"
  errors :: "(string \<times> int) list"

definition stats_dict :: "stream_stats \<Rightarrow> pydict" where
  "stats_dict st =
     [(''total_events_sent'', PInt (total_events_sent st)),
      (''historical_events_sent'', PInt (historical_events_sent st)),
      (''realtime_events_sent'', PInt (realtime_events_sent st)),
      (''failed_events'', PInt (failed_events st)),
      (''last_event_time'', opt_int (last_event_time st)),
      (''started_at'', opt_int (started_at st)),
      (''errors'', PList (map (\<lambda>er. PDict [(''message'', PStr (fst er)),
                                               (''timestamp'', PInt (snd er))]) (errors st)))]"

text \<open>
  The surroundings of one engine. The server answers the \<open>k\<close>-th POST of the engine with
  a status code, or the transport fails with \<^verbatim>\<open>httpx.RequestError\<close>, or the call raises
  an exception of another class (the client has been closed by \<^verbatim>\<open>stop\<close>, the payload
  cannot be encoded); the \<open>k\<close>-th attempt to connect to the device succeeds or raises
  \<open>DeviceError\<close> with a message; the historical fetch gives the records or raises; the
  \<open>k\<close>-th live capture yields its events (\<open>None\<close> is the driver's time-out value) and
  then ends or raises.
\<close>

datatype http_outcome = Response int | RequestError string | PostRaises string

datatype capture_end = CaptureEnds | CaptureRaises string

record engine_world =
  ew_now :: int
  ew_agent_id :: string
  ew_mac_address :: "string option"
  ew_post :: "nat \<Rightarrow> http_outcome"
  ew_connect :: "nat \<Rightarrow> string option"
  ew_history :: "string + pydict list"
  ew_capture :: "nat \<Rightarrow> raw_attendance option list \<times> capture_end"

text \<open>What an engine does that can be seen from outside; a sleep is in milliseconds.\<close>

datatype action = Post pydict | Sleep nat | Connect | Disconnect | LiveCapture

text \<open>
  A \<^verbatim>\<open>StreamManager\<close>. \<open>sm_connected\<close> says that \<^verbatim>\<open>self.device.conn\<close> is set. The three
  counters number the requests made to the surroundings so far, and \<open>sm_trace\<close> lists
  the actions so far, oldest first; the source has neither, they only observe the run.
\<close>

record engine =
  sm_device_ip :: string
  sm_device_id :: string
  sm_mode :: StreamMode
  sm_is_running :: bool
  sm_connected :: bool
  sm_event_queue :: "pydict list"
  sm_stats :: stream_stats
  sm_posts :: nat
  sm_connects :: nat
  sm_captures :: nat
  sm_trace :: "action list"

definition StreamManager :: "string \<Rightarrow> string \<Rightarrow> engine" where
  "StreamManager dev_ip dev_id =
     \<lparr>sm_device_ip = dev_ip, sm_device_id = dev_id, sm_mode = INITIALIZING,
      sm_is_running = False, sm_connected = False, sm_event_queue = [],
      sm_stats = \<lparr>total_events_sent = 0, historical_events_sent = 0,
                  realtime_events_sent = 0, failed_events = 0, last_event_time = None,
                  started_at = None, errors = []\<rparr>,
      sm_posts = 0, sm_connects = 0, sm_captures = 0, sm_trace = []\<rparr>"

definition did :: "action \<Rightarrow> engine \<Rightarrow> engine" where
  "did a e = e\<lparr>sm_trace := sm_trace e @ [a]\<rparr>"

text \<open>\<^verbatim>\<open>_log_error\<close>: append, then keep the last 50.\<close>

definition log_error :: "engine_world \<Rightarrow> engine \<Rightarrow> string \<Rightarrow> engine" where
  "log_error ew e error_message =
     (let errs = errors (sm_stats e) @ [(error_message, ew_now ew)];
          errs' = (if length errs > 50 then drop (length errs - 50) errs else errs)
      in e\<lparr>sm_stats := (sm_stats e)\<lparr>errors := errs'\<rparr>\<rparr>)"

text \<open>
  \<^verbatim>\<open>queue.Queue(maxsize=1000).put_nowait\<close> raises \<^verbatim>\<open>queue.Full\<close> when the queue
  already holds \<open>maxsize\<close> items.
\<close>

datatype queue_full = Full

definition put_nowait :: "pydict list \<Rightarrow> pydict \<Rightarrow> queue_full + pydict list" where
  "put_nowait q payload =
     (if length q \<ge> EVENT_QUEUE_MAX_SIZE then Inl Full else Inr (q @ [payload]))"

definition queue_failed_event :: "engine_world \<Rightarrow> engine \<Rightarrow> pydict \<Rightarrow> engine" where
  "queue_failed_event ew e payload =
     (case put_nowait (sm_event_queue e) payload of
        Inr q \<Rightarrow> e\<lparr>sm_event_queue := q\<rparr>
      | Inl Full \<Rightarrow> log_error ew e ''Event queue full - event discarded'')"

text \<open>
  \<^verbatim>\<open>ESSLDeviceCore.connect\<close> and \<^verbatim>\<open>disconnect\<close> as the engine uses them: no attempt is
  made while a connection is held; the result is the message of the \<open>DeviceError\<close>, if
  one is raised.
\<close>

definition device_connect :: "engine_world \<Rightarrow> engine \<Rightarrow> engine \<times> string option" where
  "device_connect ew e =
     (if sm_connected e then (e, None)
      else
        let e1 = did Connect (e\<lparr>sm_connects := Suc (sm_connects e)\<rparr>)
        in case ew_connect ew (sm_connects e) of
             None \<Rightarrow> (e1\<lparr>sm_connected := True\<rparr>, None)
           | Some msg \<Rightarrow> (e1, Some msg))"

definition device_disconnect :: "engine \<Rightarrow> engine" where
  "device_disconnect e =
     (if sm_connected e then did Disconnect (e\<lparr>sm_connected := False\<rparr>) else e)"

definition sent_ok :: "engine_world \<Rightarrow> engine \<Rightarrow> engine" where
  "sent_ok ew e =
     e\<lparr>sm_stats := (sm_stats e)\<lparr>total_events_sent := total_events_sent (sm_stats e) + 1,
                                 last_event_time := Some (ew_now ew)\<rparr>\<rparr>"

definition count_failed :: "engine \<Rightarrow> engine" where
  "count_failed e =
     e\<lparr>sm_stats := (sm_stats e)\<lparr>failed_events := failed_events (sm_stats e) + 1\<rparr>\<rparr>"

text \<open>One \<^verbatim>\<open>http_client.post\<close>: the request is made and numbered.\<close>

definition attempt_post :: "pydict \<Rightarrow> engine \<Rightarrow> engine" where
  "attempt_post payload e = did (Post payload) (e\<lparr>sm_posts := Suc (sm_posts e)\<rparr>)"

text \<open>
  The retry loop of \<^verbatim>\<open>_send_event_to_server\<close>, from attempt number \<open>attempt\<close> on, and
  the code after the loop. The method returns a truth value (\<open>Inr\<close>), or an exception
  that \<^verbatim>\<open>except httpx.RequestError\<close> does not catch leaves it (\<open>Inl\<close>, with its
  message); the engine is then as the method left it.
\<close>

function send_loop ::
  "engine_world \<Rightarrow> pydict \<Rightarrow> nat \<Rightarrow> engine \<Rightarrow> engine \<times> (string + bool)" where
  "send_loop ew payload attempt e =
     (if attempt > MAX_RETRY_ATTEMPTS then
        (queue_failed_event ew (count_failed e) payload, Inr False)
      else
        let e1 = attempt_post payload e
        in case ew_post ew (sm_posts e) of
             Response status_code \<Rightarrow>
               if status_code \<in> {200, 201, 204} then (sent_ok ew e1, Inr True)
               else if attempt < MAX_RETRY_ATTEMPTS
                    then send_loop ew payload (Suc attempt)
                           (did (Sleep (RETRY_DELAY_SECONDS * 1000)) e1)
                    else send_loop ew payload (Suc attempt) e1
           | RequestError msg \<Rightarrow>
               if attempt < MAX_RETRY_ATTEMPTS
               then send_loop ew payload (Suc attempt)
                      (did (Sleep (RETRY_DELAY_SECONDS * 1000)) e1)
               else send_loop ew payload (Suc attempt) e1
           | PostRaises msg \<Rightarrow> (e1, Inl msg))"
  by pat_completeness auto
termination
  by (relation "measure (\<lambda>(ew, payload, attempt, e). Suc MAX_RETRY_ATTEMPTS - attempt)") auto

declare send_loop.simps [simp del]

definition make_payload :: "engine_world \<Rightarrow> engine \<Rightarrow> pydict \<Rightarrow> EventType \<Rightarrow> pydict" where
  "make_payload ew e event_data event_type =
     [(''device_id'', PStr (sm_device_id e)),
      (''event_type'', PStr (event_type_value event_type)),
      (''event_data'', PDict event_data),
      (''timestamp'', PInt (ew_now ew))]"

definition send_event_to_server ::
  "engine_world \<Rightarrow> engine \<Rightarrow> pydict \<Rightarrow> EventType \<Rightarrow> engine \<times> (string + bool)" where
  "send_event_to_server ew e event_data event_type =
     send_loop ew (make_payload ew e event_data event_type) 1 e"

text \<open>\<^verbatim>\<open>_reconnect\<close>: the loop over the attempts and the code after it, then the method.\<close>

function reconnect_loop :: "engine_world \<Rightarrow> nat \<Rightarrow> engine \<Rightarrow> engine" where
  "reconnect_loop ew attempt e =
     (if attempt > 3 then e\<lparr>sm_mode := ERROR\<rparr>
      else if \<not> sm_is_running e then e
      else
        case device_connect ew e of
          (e1, None) \<Rightarrow> e1
        | (e1, Some msg) \<Rightarrow>
            if attempt < 3 then reconnect_loop ew (Suc attempt) (did (Sleep 10000) e1)
            else reconnect_loop ew (Suc attempt) e1)"
  by pat_completeness auto
termination
  by (relation "measure (\<lambda>(ew, attempt, e). 4 - attempt)") auto

declare reconnect_loop.simps [simp del]

definition reconnect :: "engine_world \<Rightarrow> engine \<Rightarrow> engine" where
  "reconnect ew e =
     reconnect_loop ew 1
       (did (Sleep 5000) (device_disconnect (e\<lparr>sm_mode := RECONNECTING\<rparr>)))"

text \<open>
  The loop of \<^verbatim>\<open>_sync_historical_logs\<close> over the logs, with the message of an
  exception that leaves it, and the method, whose \<^verbatim>\<open>except Exception\<close> catches that.
\<close>

definition count_historical :: "engine \<Rightarrow> engine" where
  "count_historical e =
     e\<lparr>sm_stats := (sm_stats e)\<lparr>historical_events_sent :=
                                   historical_events_sent (sm_stats e) + 1\<rparr>\<rparr>"

fun sync_logs ::
  "engine_world \<Rightarrow> pydict list \<Rightarrow> engine \<Rightarrow> engine \<times> string option" where
  "sync_logs ew [] e = (e, None)"
| "sync_logs ew (log # logs) e =
     (if \<not> sm_is_running e then (e, None)
      else
        case send_event_to_server ew e log HISTORICAL of
          (e1, Inl msg) \<Rightarrow> (e1, Some msg)
        | (e1, Inr success) \<Rightarrow>
            sync_logs ew logs
              (did (Sleep 100) (if success then count_historical e1 else e1)))"

definition sync_historical_logs :: "engine_world \<Rightarrow> engine \<Rightarrow> engine" where
  "sync_historical_logs ew e =
     (if \<not> sm_is_running e then e
      else
        case device_connect ew (e\<lparr>sm_mode := SYNCING\<rparr>) of
          (e1, Some msg) \<Rightarrow> log_error ew e1 (''Device error during sync: '' @ msg)
        | (e1, None) \<Rightarrow>
            (case ew_history ew of
               Inl msg \<Rightarrow> log_error ew e1 (''Device error during sync: '' @ msg)
             | Inr logs \<Rightarrow>
                 (case sync_logs ew logs e1 of
                    (e2, None) \<Rightarrow> e2
                  | (e2, Some msg) \<Rightarrow>
                      log_error ew e2 (''Unexpected error during sync: '' @ msg))))"

text \<open>\<^verbatim>\<open>_format_attendance_event\<close>.\<close>

definition format_attendance_event :: "engine_world \<Rightarrow> raw_attendance \<Rightarrow> pydict" where
  "format_attendance_event ew a =
     [(''user_id'', PStr (a_user_id a)),
      (''timestamp'', opt_int (format_datetime (a_timestamp a))),
      (''status'', PInt (a_status a)),
      (''punch'', PInt (a_punch a)),
      (''uid'', PInt (a_uid a)),
      (''captured_at'', PInt (ew_now ew))]"

definition count_realtime :: "engine \<Rightarrow> engine" where
  "count_realtime e =
     e\<lparr>sm_stats := (sm_stats e)\<lparr>realtime_events_sent :=
                                   realtime_events_sent (sm_stats e) + 1\<rparr>\<rparr>"

text \<open>
  The \<^verbatim>\<open>for\<close> loop over \<^verbatim>\<open>live_capture()\<close>, and how it was left: it ran to the end of
  what the capture yields, or it left by \<^verbatim>\<open>break\<close>, or an exception left it.
\<close>

datatype loop_end = RanOut | Broke | Raised string

fun capture_events ::
  "engine_world \<Rightarrow> raw_attendance option list \<Rightarrow> engine \<Rightarrow> engine \<times> loop_end" where
  "capture_events ew [] e = (e, RanOut)"
| "capture_events ew (attendance # rest) e =
     (if \<not> sm_is_running e then (e, Broke)
      else
        case attendance of
          None \<Rightarrow> capture_events ew rest e
        | Some a \<Rightarrow>
            (case send_event_to_server ew e (format_attendance_event ew a) REALTIME of
               (e1, Inl msg) \<Rightarrow> (e1, Raised msg)
             | (e1, Inr success) \<Rightarrow>
                 capture_events ew rest (if success then count_realtime e1 else e1)))"

text \<open>
  One pass through the body of the \<^verbatim>\<open>while\<close> loop of \<^verbatim>\<open>_live_stream_loop\<close>:
  the live capture with a connection held, and the whole pass.
\<close>

definition capture_pass :: "engine_world \<Rightarrow> engine \<Rightarrow> engine" where
  "capture_pass ew e1 =
     (case capture_events ew (fst (ew_capture ew (sm_captures e1)))
             (did LiveCapture (e1\<lparr>sm_captures := Suc (sm_captures e1)\<rparr>)) of
        (e2, Broke) \<Rightarrow> e2
      | (e2, Raised msg) \<Rightarrow>
          reconnect ew (log_error ew e2 (''Unexpected error in live mode: '' @ msg))
      | (e2, RanOut) \<Rightarrow>
          (case snd (ew_capture ew (sm_captures e1)) of
             CaptureEnds \<Rightarrow> e2
           | CaptureRaises msg \<Rightarrow>
               reconnect ew
                 (log_error ew e2 (''Unexpected error in live mode: '' @ msg))))"

definition live_iteration :: "engine_world \<Rightarrow> engine \<Rightarrow> engine" where
  "live_iteration ew e =
     (case (if \<not> sm_connected e then device_connect ew e else (e, None)) of
        (e1, Some msg) \<Rightarrow>
          reconnect ew (log_error ew e1 (''Device error in live mode: '' @ msg))
      | (e1, None) \<Rightarrow> capture_pass ew e1)"

text \<open>
  The \<^verbatim>\<open>while self.is_running\<close> loop ends only when the flag is cleared. \<open>live_while\<close>
  follows it for at most \<open>n\<close> passes and gives the state reached.
\<close>

fun live_while :: "engine_world \<Rightarrow> nat \<Rightarrow> engine \<Rightarrow> engine" where
  "live_while ew 0 e = e"
| "live_while ew (Suc n) e =
     (if sm_is_running e then live_while ew n (live_iteration ew e) else e)"

definition live_stream_loop :: "engine_world \<Rightarrow> nat \<Rightarrow> engine \<Rightarrow> engine" where
  "live_stream_loop ew n e =
     (if \<not> sm_is_running e then e else live_while ew n (e\<lparr>sm_mode := LIVE\<rparr>))"


text \<open>\<^verbatim>\<open>start\<close>, \<^verbatim>\<open>stop\<close> and \<^verbatim>\<open>get_status\<close>.\<close>

definition sm_envelope ::
  "engine_world \<Rightarrow> engine \<Rightarrow> string \<Rightarrow> pydict \<Rightarrow> pydict" where
  "sm_envelope ew e command result =
     [(''id'', PStr []),
      (''agent_id'', PStr (ew_agent_id ew)),
      (''command'', PStr command),
      (''mac_address'', opt_str (ew_mac_address ew)),
      (''result'', PDict result),
      (''device_ip'', PStr (sm_device_ip e)),
      (''device_id'', PStr (sm_device_id e)),
      (''success'', PBool True),
      (''timestamp'', PInt (ew_now ew))]"

definition start :: "engine_world \<Rightarrow> engine \<Rightarrow> engine \<times> pydict" where
  "start ew e =
     (if sm_is_running e then
        (e, [(''success'', PBool False),
             (''message'', PStr ''Stream manager already running''),
             (''mode'', PStr (mode_value (sm_mode e)))])
      else
        let e1 = e\<lparr>sm_is_running := True,
                   sm_stats := (sm_stats e)\<lparr>started_at := Some (ew_now ew)\<rparr>\<rparr>
        in (e1, sm_envelope ew e1 ''start_stream''
                  [(''message'', PStr ''Stream manager started successfully''),
                   (''mode'', PStr (mode_value (sm_mode e1)))]))"

definition stop :: "engine_world \<Rightarrow> engine \<Rightarrow> engine \<times> pydict" where
  "stop ew e =
     (if \<not> sm_is_running e then
        (e, [(''success'', PBool False),
             (''message'', PStr ''Stream manager not running'')])
      else
        let e1 = device_disconnect (e\<lparr>sm_is_running := False, sm_mode := STOPPED\<rparr>)
        in (e1, sm_envelope ew e1 ''stop_stream''
                  [(''message'', PStr ''Stream manager stopped''),
                   (''statistics'', PDict (stats_dict (sm_stats e1)))]))"

definition get_status :: "engine_world \<Rightarrow> engine \<Rightarrow> pydict" where
  "get_status ew e =
     sm_envelope ew e ''get_status''
       [(''is_running'', PBool (sm_is_running e)),
        (''mode'', PStr (mode_value (sm_mode e))),
        (''statistics'', PDict (stats_dict (sm_stats e))),
        (''queue_size'', PInt (int (length (sm_event_queue e))))]"

text \<open>The operations on one engine, and a lifetime as a sequence of them.\<close>

datatype engine_op =
    OpStart
  | OpStop
  | OpSync
  | OpLive nat
  | OpSend pydict EventType
  | OpQueueFailed pydict
  | OpReconnect
  | OpLogError string

fun engine_step :: "engine_world \<Rightarrow> engine \<Rightarrow> engine_op \<Rightarrow> engine" where
  "engine_step ew e OpStart = fst (start ew e)"
| "engine_step ew e OpStop = fst (stop ew e)"
| "engine_step ew e OpSync = sync_historical_logs ew e"
| "engine_step ew e (OpLive n) = live_stream_loop ew n e"
| "engine_step ew e (OpSend event_data event_type) =
     fst (send_event_to_server ew e event_data event_type)"
| "engine_step ew e (OpQueueFailed payload) = queue_failed_event ew e payload"
| "engine_step ew e OpReconnect = reconnect ew e"
| "engine_step ew e (OpLogError msg) = log_error ew e msg"

fun engine_run :: "engine_world \<Rightarrow> engine \<Rightarrow> engine_op list \<Rightarrow> engine" where
  "engine_run ew e [] = e"
| "engine_run ew e (op # ops) = engine_run ew (engine_step ew e op) ops"

text \<open>No counter of the second statistics is below the one of the first.\<close>

definition counters_le :: "stream_stats \<Rightarrow> stream_stats \<Rightarrow> bool" where
  "counters_le s t =
     (total_events_sent s \<le> total_events_sent t
      \<and> historical_events_sent s \<le> historical_events_sent t
      \<and> realtime_events_sent s \<le> realtime_events_sent t
      \<and> failed_events s \<le> failed_events t)"

text \<open>
  What the statements below are phrased with: that an answer of the server counts as
  delivered, that an attempt has failed and the next one may follow, the message of an
  exception that is not caught, that the overflow queue is within its capacity, and
  that an engine has only gone forward from another.
\<close>

definition post_ok :: "http_outcome \<Rightarrow> bool" where
  "post_ok r = (case r of Response status_code \<Rightarrow> status_code \<in> {200, 201, 204}
                        | RequestError msg \<Rightarrow> False
                        | PostRaises msg \<Rightarrow> False)"

definition failed_attempt :: "http_outcome \<Rightarrow> bool" where
  "failed_attempt r = (case r of Response status_code \<Rightarrow> status_code \<notin> {200, 201, 204}
                               | RequestError msg \<Rightarrow> True
                               | PostRaises msg \<Rightarrow> False)"

definition post_raises :: "http_outcome \<Rightarrow> string option" where
  "post_raises r = (case r of Response status_code \<Rightarrow> None
                            | RequestError msg \<Rightarrow> None
                            | PostRaises msg \<Rightarrow> Some msg)"

definition queue_bounded :: "engine \<Rightarrow> bool" where
  "queue_bounded e = (length (sm_event_queue e) \<le> EVENT_QUEUE_MAX_SIZE)"

definition advances :: "engine \<Rightarrow> engine \<Rightarrow> bool" where
  "advances e e' =
     (counters_le (sm_stats e) (sm_stats e') \<and> (queue_bounded e \<longrightarrow> queue_bounded e'))"


section \<open>The stream coordinator (\<^verbatim>\<open>stream.py\<close>)\<close>


definition empty_pool :: pool where
  "empty_pool = \<lparr>devices = [], device_cores = [], data_file = None\<rparr>"



















section \<open>Example values\<close>

text \<open>A device with one user and three attendance records, one of them at the epoch.\<close>

definition user1 :: zk_user where
  "user1 = \<lparr>u_uid = 1, u_user_id = ''E100'', u_name = ''Asha'', u_privilege = 0,
            u_password = ''1234'', u_card = PInt 77\<rparr>"

definition raw1 :: "raw_attendance list" where
  "raw1 = [\<lparr>a_user_id = ''E100'', a_timestamp = Some 19800, a_status = 1,
            a_punch = 0, a_uid = 1\<rparr>,
           \<lparr>a_user_id = ''E100'', a_timestamp = Some 1700019800, a_status = 1,
            a_punch = 0, a_uid = 1\<rparr>,
           \<lparr>a_user_id = ''E200'', a_timestamp = Some 1700019900, a_status = 1,
            a_punch = 1, a_uid = 2\<rparr>]"

definition conn1 :: zk_conn where
  "conn1 = \<lparr>zk_users = Inr [user1],
            zk_attendance = Inr (Some raw1),
            zk_set_user_fails = (\<lambda>u. None),
            zk_written = []\<rparr>"

text \<open>The three records of that device as \<^verbatim>\<open>get_attendance\<close> formats them.\<close>

definition log_epoch :: attendance_log where
  "log_epoch = \<lparr>l_user_id = ''E100'', l_timestamp = Some 0, l_status = 1, l_punch = 0,
                l_uid = 1\<rparr>"

definition log_a :: attendance_log where
  "log_a = \<lparr>l_user_id = ''E100'', l_timestamp = Some 1700000000, l_status = 1, l_punch = 0,
            l_uid = 1\<rparr>"

definition log_b :: attendance_log where
  "log_b = \<lparr>l_user_id = ''E200'', l_timestamp = Some 1700000100, l_status = 1, l_punch = 1,
            l_uid = 2\<rparr>"

text \<open>
  A world in which every operation on a device returns the keyword arguments it was
  called with, so that the answer of the handler shows what reached the operation.
\<close>

definition echo_world :: world where
  "echo_world =
     \<lparr>w_now = 1700000000, w_disk_ok = True, w_agent_id = ''agent-1'',
      w_mac_address = Some ''aa:bb:cc:dd:ee:ff'',
      w_run = (\<lambda>core operation kwargs. Returns (PDict kwargs)),
      w_is_online = (\<lambda>core. True)\<rparr>"

definition bogus_without_target :: command_envelope where
  "bogus_without_target =
     \<lparr>ce_id = Some ''42'', ce_command = Some ''bogus_cmd'', ce_params = None,
      ce_device_id = None, ce_device_ip = None\<rparr>"

definition bogus_with_target :: command_envelope where
  "bogus_with_target =
     \<lparr>ce_id = Some ''42'', ce_command = Some ''bogus_cmd'', ce_params = None,
      ce_device_id = Some ''device_001'', ce_device_ip = None\<rparr>"

definition list_devices_command :: command_envelope where
  "list_devices_command =
     \<lparr>ce_id = Some ''7'', ce_command = Some ''list_devices'', ce_params = Some [],
      ce_device_id = None, ce_device_ip = None\<rparr>"

definition attendance_until_epoch :: command_envelope where
  "attendance_until_epoch =
     \<lparr>ce_id = Some ''8'', ce_command = Some ''get_attendance'',
      ce_params = Some [(''end_time'', PInt 0)],
      ce_device_id = None, ce_device_ip = Some ''10.0.0.5''\<rparr>"

definition attendance_since :: command_envelope where
  "attendance_since =
     \<lparr>ce_id = Some ''9'', ce_command = Some ''get_attendance'',
      ce_params = Some [(''start_time'', PInt 1700000000)],
      ce_device_id = None, ce_device_ip = Some ''10.0.0.5''\<rparr>"

definition empty_command_with_target :: command_envelope where
  "empty_command_with_target =
     \<lparr>ce_id = Some ''43'', ce_command = Some [], ce_params = None,
      ce_device_id = None, ce_device_ip = Some ''10.0.0.5''\<rparr>"

text \<open>
  An engine for one device; a server that cannot be reached, one that accepts every
  event, one that answers 500 once and then 201, and an HTTP client that has been
  closed; an engine whose overflow queue is full.
\<close>

definition engine1 :: engine where
  "engine1 = StreamManager ''10.0.0.5'' ''device_001''"

definition server_down :: engine_world where
  "server_down =
     \<lparr>ew_now = 1700000000, ew_agent_id = ''agent-1'',
      ew_mac_address = Some ''aa:bb:cc:dd:ee:ff'',
      ew_post = (\<lambda>k. RequestError ''connection refused''),
      ew_connect = (\<lambda>k. None),
      ew_history = Inr [],
      ew_capture = (\<lambda>k. ([], CaptureEnds))\<rparr>"

definition server_up :: engine_world where
  "server_up = server_down\<lparr>ew_post := (\<lambda>k. Response 200)\<rparr>"

definition server_flaky :: engine_world where
  "server_flaky = server_down\<lparr>ew_post := (\<lambda>k. if k = 0 then Response 500 else Response 201)\<rparr>"

definition client_closed :: engine_world where
  "client_closed =
     server_down\<lparr>ew_post :=
       (\<lambda>k. PostRaises ''Cannot send a request, as the client has been closed.'')\<rparr>"

definition event1 :: pydict where
  "event1 = [(''user_id'', PStr ''E100''), (''timestamp'', PInt 1700000000)]"

definition engine_full :: engine where
  "engine_full = engine1\<lparr>sm_event_queue := replicate 1000 event1\<rparr>"

text \<open>
  A device that refuses the first four connections and accepts from then on, one that
  refuses the first one only, and an engine that has been started.
\<close>

definition device_away :: engine_world where
  "device_away =
     server_up\<lparr>ew_connect := (\<lambda>k. if k < 4 then Some ''timed out'' else None)\<rparr>"

definition device_blinks :: engine_world where
  "device_blinks =
     server_up\<lparr>ew_connect := (\<lambda>k. if k < 1 then Some ''timed out'' else None)\<rparr>"

definition engine_started :: engine where
  "engine_started = fst (start server_up engine1)"




section \<open>Properties of dictionaries\<close>

lemma fst_dict_set:
  "map fst (dict_set k v d) = (if k \<in> set (map fst d) then map fst d else map fst d @ [k])"
  by (induction d) auto

lemma map_of_dict_set: "map_of (dict_set k v d) = (map_of d)(k \<mapsto> v)"
  by (induction d) (auto simp: fun_eq_iff)

lemma distinct_dict_set: "distinct (map fst d) \<Longrightarrow> distinct (map fst (dict_set k v d))"
  by (simp add: fst_dict_set)

lemma dict_has_dict_set: "dict_has k' (dict_set k v d) = (k' = k \<or> dict_has k' d)"
  by (auto simp: dict_has_def fst_dict_set)




lemma count_key_distinct:
  "distinct (map fst d) \<Longrightarrow> k \<in> set (map fst d) \<Longrightarrow> length (filter (\<lambda>kv. fst kv = k) d) = 1"
  by (induction d) (auto simp: filter_empty_conv image_iff)


section \<open>Properties of the registry\<close>

lemma wf_pool_save: "wf_pool (save_devices ok p) = wf_pool p"
  by (simp add: wf_pool_def save_devices_def)

lemma devices_save: "devices (save_devices ok p) = devices p"
  by (simp add: save_devices_def)

lemma cores_save: "device_cores (save_devices ok p) = device_cores p"
  by (simp add: save_devices_def)

lemma register_device_present:
  "dict_has i (devices p) \<Longrightarrow>
   register_device ok p i ip po pw n l =
     (p, [(''success'', PBool False),
          (''message'', PStr (''Device '' @ i @ '' already registered'')),
          (''device_id'', PStr i)])"
  by (simp add: register_device_def)

lemma wf_pool_register: "wf_pool p \<Longrightarrow> wf_pool (fst (register_device ok p i ip po pw n l))"
  by (simp add: register_device_def Let_def wf_pool_save)
     (simp add: wf_pool_def distinct_dict_set)

lemma has_after_register: "dict_has i (devices (fst (register_device ok p i ip po pw n l)))"
  by (simp add: register_device_def Let_def devices_save dict_has_dict_set)

lemma wf_pool_register_all: "wf_pool p \<Longrightarrow> wf_pool (register_all ok p as)"
  by (induction as arbitrary: p) (auto simp: register_call_def wf_pool_register split: prod.splits)

lemma records_for_one: "wf_pool p \<Longrightarrow> dict_has i (devices p) \<Longrightarrow> records_for i p = 1"
  by (simp add: wf_pool_def dict_has_def records_for_def count_key_distinct)

text \<open>
  Claim C4. Take a registry with every key once and any sequence of register calls on
  it. In the registry \<open>q\<close> reached, registering an id that is present returns the
  failure result with \<open>success = False\<close> and the message "already registered", returns
  \<open>q\<close> itself (records, cores and file as they were), and \<open>q\<close> holds exactly one record
  for that id. Registering an id that is absent succeeds, and the record and the core
  stored have port 4370 where the port is \<open>None\<close> and password 0 where the password is
  \<open>None\<close>; the registry then holds exactly one record for the id.
\<close>

theorem register_device_duplicate_and_defaults:
  assumes wf: "wf_pool p"
  shows "(dict_has i (devices (register_all ok p as)) \<longrightarrow>
            register_device ok' (register_all ok p as) i ip po pw n l =
              (register_all ok p as,
               [(''success'', PBool False),
                (''message'', PStr (''Device '' @ i @ '' already registered'')),
                (''device_id'', PStr i)])
            \<and> records_for i (register_all ok p as) = 1)
       \<and> (\<not> dict_has i (devices (register_all ok p as)) \<longrightarrow>
            py_get (snd (register_device ok' (register_all ok p as) i ip po pw n l)) ''success''
              = PBool True
            \<and> map_of (devices (fst (register_device ok' (register_all ok p as) i ip po pw n l))) i =
              Some \<lparr>di_device_id = i, di_device_ip = ip,
                    di_port = (case po of None \<Rightarrow> 4370 | Some x \<Rightarrow> x),
                    di_password = (case pw of None \<Rightarrow> 0 | Some x \<Rightarrow> x),
                    di_timeout = 10, di_name = n, di_location = l,
                    di_is_active = True, di_last_seen = None\<rparr>
            \<and> map_of (device_cores
                        (fst (register_device ok' (register_all ok p as) i ip po pw n l))) i =
              Some \<lparr>core_device_ip = ip,
                    core_port = (case po of None \<Rightarrow> 4370 | Some x \<Rightarrow> x),
                    core_password = (case pw of None \<Rightarrow> 0 | Some x \<Rightarrow> x),
                    core_timeout = 10, core_force_udp = False\<rparr>
            \<and> records_for i (fst (register_device ok' (register_all ok p as) i ip po pw n l)) = 1)"
proof -
  let ?q = "register_all ok p as"
  have wfq: "wf_pool ?q" using wf by (rule wf_pool_register_all)
  have A: "dict_has i (devices ?q) \<Longrightarrow> records_for i ?q = 1"
    using wfq by (rule records_for_one)
  have B: "records_for i (fst (register_device ok' ?q i ip po pw n l)) = 1"
    by (rule records_for_one [OF wf_pool_register [OF wfq] has_after_register])
  have C: "\<not> dict_has i (devices ?q) \<Longrightarrow>
     py_get (snd (register_device ok' ?q i ip po pw n l)) ''success'' = PBool True"
    by (simp add: register_device_def Let_def py_get_def)
  have D: "\<not> dict_has i (devices ?q) \<Longrightarrow>
     map_of (devices (fst (register_device ok' ?q i ip po pw n l))) i =
              Some \<lparr>di_device_id = i, di_device_ip = ip,
                    di_port = (case po of None \<Rightarrow> 4370 | Some x \<Rightarrow> x),
                    di_password = (case pw of None \<Rightarrow> 0 | Some x \<Rightarrow> x),
                    di_timeout = 10, di_name = n, di_location = l,
                    di_is_active = True, di_last_seen = None\<rparr>"
    by (simp add: register_device_def Let_def devices_save map_of_dict_set
          DEFAULT_PORT_def DEFAULT_PASSWORD_def DEFAULT_TIMEOUT_def split: option.splits)
  have E: "\<not> dict_has i (devices ?q) \<Longrightarrow>
     map_of (device_cores (fst (register_device ok' ?q i ip po pw n l))) i =
              Some \<lparr>core_device_ip = ip,
                    core_port = (case po of None \<Rightarrow> 4370 | Some x \<Rightarrow> x),
                    core_password = (case pw of None \<Rightarrow> 0 | Some x \<Rightarrow> x),
                    core_timeout = 10, core_force_udp = False\<rparr>"
    by (simp add: register_device_def Let_def cores_save map_of_dict_set ESSLDeviceCore_def
          DEFAULT_PORT_def DEFAULT_PASSWORD_def split: option.splits)
  show ?thesis
    using A B C D E by (simp add: register_device_present)
qed

lemma registered_d1:
  "register_all True empty_pool [(''d1'', ''10.0.0.5'', None, None, None, None)] =
     \<lparr>devices = [(''d1'', \<lparr>di_device_id = ''d1'', di_device_ip = ''10.0.0.5'', di_port = 4370,
                            di_password = 0, di_timeout = 10, di_name = None,
                            di_location = None, di_is_active = True, di_last_seen = None\<rparr>)],
      device_cores = [(''d1'', \<lparr>core_device_ip = ''10.0.0.5'', core_port = 4370,
                                core_password = 0, core_timeout = 10,
                                core_force_udp = False\<rparr>)],
      data_file = Some [(''d1'', [(''device_id'', PStr ''d1''), (''device_ip'', PStr ''10.0.0.5''),
                                  (''port'', PInt 4370), (''name'', PNone),
                                  (''location'', PNone), (''is_active'', PBool True),
                                  (''last_seen'', PNone)])]\<rparr>"
  by (simp add: register_call_def register_device_def empty_pool_def dict_has_def Let_def
        save_devices_def to_dict_def DEFAULT_PORT_def DEFAULT_PASSWORD_def DEFAULT_TIMEOUT_def
        ESSLDeviceCore_def opt_str_def opt_int_def)

theorem register_device_duplicate_and_defaults_witness:
  "wf_pool empty_pool
   \<and> dict_has ''d1''
       (devices (register_all True empty_pool [(''d1'', ''10.0.0.5'', None, None, None, None)]))
   \<and> register_device True
         (register_all True empty_pool [(''d1'', ''10.0.0.5'', None, None, None, None)])
         ''d1'' ''10.0.0.9'' (Some 1) (Some 2) None None =
       (register_all True empty_pool [(''d1'', ''10.0.0.5'', None, None, None, None)],
        [(''success'', PBool False),
         (''message'', PStr ''Device d1 already registered''),
         (''device_id'', PStr ''d1'')])
   \<and> records_for ''d1''
         (register_all True empty_pool [(''d1'', ''10.0.0.5'', None, None, None, None)]) = 1
   \<and> \<not> dict_has ''d2''
         (devices (register_all True empty_pool [(''d1'', ''10.0.0.5'', None, None, None, None)]))
   \<and> map_of (devices (fst (register_device True
         (register_all True empty_pool [(''d1'', ''10.0.0.5'', None, None, None, None)])
         ''d2'' ''10.0.0.6'' None None None None))) ''d2'' =
       Some \<lparr>di_device_id = ''d2'', di_device_ip = ''10.0.0.6'', di_port = 4370,
             di_password = 0, di_timeout = 10, di_name = None, di_location = None,
             di_is_active = True, di_last_seen = None\<rparr>"
proof -
  have wf: "wf_pool empty_pool" by (simp add: wf_pool_def empty_pool_def)
  have h1: "dict_has ''d1''
       (devices (register_all True empty_pool [(''d1'', ''10.0.0.5'', None, None, None, None)]))"
    unfolding registered_d1 by (simp add: dict_has_def)
  have h2: "\<not> dict_has ''d2''
       (devices (register_all True empty_pool [(''d1'', ''10.0.0.5'', None, None, None, None)]))"
    unfolding registered_d1 by (simp add: dict_has_def)
  note t1 = register_device_duplicate_and_defaults [OF wf, of "''d1''" True
      "[(''d1'', ''10.0.0.5'', None, None, None, None)]" True "''10.0.0.9''" "Some 1" "Some 2"
      None None]
  note t2 = register_device_duplicate_and_defaults [OF wf, of "''d2''" True
      "[(''d1'', ''10.0.0.5'', None, None, None, None)]" True "''10.0.0.6''" None None
      None None]
  from t1 h1 have c1: "register_device True
         (register_all True empty_pool [(''d1'', ''10.0.0.5'', None, None, None, None)])
         ''d1'' ''10.0.0.9'' (Some 1) (Some 2) None None =
       (register_all True empty_pool [(''d1'', ''10.0.0.5'', None, None, None, None)],
        [(''success'', PBool False),
         (''message'', PStr ''Device d1 already registered''),
         (''device_id'', PStr ''d1'')])
     \<and> records_for ''d1''
         (register_all True empty_pool [(''d1'', ''10.0.0.5'', None, None, None, None)]) = 1"
    by simp
  from t2 h2 have c2: "map_of (devices (fst (register_device True
         (register_all True empty_pool [(''d1'', ''10.0.0.5'', None, None, None, None)])
         ''d2'' ''10.0.0.6'' None None None None))) ''d2'' =
       Some \<lparr>di_device_id = ''d2'', di_device_ip = ''10.0.0.6'', di_port = 4370,
             di_password = 0, di_timeout = 10, di_name = None, di_location = None,
             di_is_active = True, di_last_seen = None\<rparr>"
    by simp
  from wf h1 h2 c1 c2 show ?thesis by blast
qed


section \<open>Properties of the device core\<close>

lemma find_uid: "find (\<lambda>u. u_uid u = uid) users = Some ex \<Longrightarrow> u_uid ex = uid"
  by (auto simp: find_Some_iff)

text \<open>
  Claim C10. On a connected device whose user list can be read: when no user has the
  given uid, \<^verbatim>\<open>update_user\<close> fails with a \<open>DeviceError\<close> and the connection, with its
  list of writes, is as before. When a user \<open>ex\<close> has the uid (the first such user) and
  the write goes through, exactly one \<^verbatim>\<open>set_user\<close> call is added; it carries the uid,
  the user id of \<open>ex\<close>, and for the name, the privilege, the password and the card the
  argument where one is given and the value of \<open>ex\<close> where it is \<open>None\<close>. With all four
  arguments \<open>None\<close> the user written is \<open>ex\<close> itself.
\<close>

theorem update_user_merges_with_existing:
  assumes users: "zk_users c = Inr users"
  shows "(find (\<lambda>u. u_uid u = uid) users = None \<longrightarrow>
            update_user (Some c) uid n pr pw ca =
              (Inl (DeviceError (''Failed to update user: User with UID '' @ str_of_int uid
                                 @ '' not found on device'')), Some c))
       \<and> (\<forall>ex. find (\<lambda>u. u_uid u = uid) users = Some ex
              \<and> zk_set_user_fails c
                   \<lparr>u_uid = uid, u_user_id = u_user_id ex,
                    u_name = (case n of None \<Rightarrow> u_name ex | Some x \<Rightarrow> x),
                    u_privilege = (case pr of None \<Rightarrow> u_privilege ex | Some x \<Rightarrow> x),
                    u_password = (case pw of None \<Rightarrow> u_password ex | Some x \<Rightarrow> x),
                    u_card = (case ca of None \<Rightarrow> u_card ex | Some x \<Rightarrow> x)\<rparr> = None \<longrightarrow>
            update_user (Some c) uid n pr pw ca =
              (Inr [(''success'', PBool True),
                    (''message'', PStr (''User '' @ str_of_int uid @ '' updated successfully''))],
               Some (c\<lparr>zk_written := zk_written c @
                  [\<lparr>u_uid = uid, u_user_id = u_user_id ex,
                    u_name = (case n of None \<Rightarrow> u_name ex | Some x \<Rightarrow> x),
                    u_privilege = (case pr of None \<Rightarrow> u_privilege ex | Some x \<Rightarrow> x),
                    u_password = (case pw of None \<Rightarrow> u_password ex | Some x \<Rightarrow> x),
                    u_card = (case ca of None \<Rightarrow> u_card ex | Some x \<Rightarrow> x)\<rparr>]\<rparr>)))
       \<and> (\<forall>ex. find (\<lambda>u. u_uid u = uid) users = Some ex \<and> zk_set_user_fails c ex = None \<longrightarrow>
            snd (update_user (Some c) uid None None None None) =
              Some (c\<lparr>zk_written := zk_written c @ [ex]\<rparr>))"
proof (intro conjI allI impI)
  assume "find (\<lambda>u. u_uid u = uid) users = None"
  then show "update_user (Some c) uid n pr pw ca =
              (Inl (DeviceError (''Failed to update user: User with UID '' @ str_of_int uid
                                 @ '' not found on device'')), Some c)"
    using users by (simp add: update_user_def)
next
  fix ex
  assume "find (\<lambda>u. u_uid u = uid) users = Some ex
              \<and> zk_set_user_fails c
                   \<lparr>u_uid = uid, u_user_id = u_user_id ex,
                    u_name = (case n of None \<Rightarrow> u_name ex | Some x \<Rightarrow> x),
                    u_privilege = (case pr of None \<Rightarrow> u_privilege ex | Some x \<Rightarrow> x),
                    u_password = (case pw of None \<Rightarrow> u_password ex | Some x \<Rightarrow> x),
                    u_card = (case ca of None \<Rightarrow> u_card ex | Some x \<Rightarrow> x)\<rparr> = None"
  then show "update_user (Some c) uid n pr pw ca =
              (Inr [(''success'', PBool True),
                    (''message'', PStr (''User '' @ str_of_int uid @ '' updated successfully''))],
               Some (c\<lparr>zk_written := zk_written c @
                  [\<lparr>u_uid = uid, u_user_id = u_user_id ex,
                    u_name = (case n of None \<Rightarrow> u_name ex | Some x \<Rightarrow> x),
                    u_privilege = (case pr of None \<Rightarrow> u_privilege ex | Some x \<Rightarrow> x),
                    u_password = (case pw of None \<Rightarrow> u_password ex | Some x \<Rightarrow> x),
                    u_card = (case ca of None \<Rightarrow> u_card ex | Some x \<Rightarrow> x)\<rparr>]\<rparr>))"
    using users by (simp add: update_user_def Let_def)
next
  fix ex
  assume a: "find (\<lambda>u. u_uid u = uid) users = Some ex \<and> zk_set_user_fails c ex = None"
  then have "u_uid ex = uid" by (blast dest: find_uid)
  then have ex: "\<lparr>u_uid = uid, u_user_id = u_user_id ex, u_name = u_name ex,
                  u_privilege = u_privilege ex, u_password = u_password ex,
                  u_card = u_card ex\<rparr> = ex"
    by (cases ex) simp
  show "snd (update_user (Some c) uid None None None None) =
          Some (c\<lparr>zk_written := zk_written c @ [ex]\<rparr>)"
    using users a by (simp add: update_user_def Let_def ex)
qed

theorem update_user_merges_with_existing_witness:
  "zk_users conn1 = Inr [user1]
   \<and> find (\<lambda>u. u_uid u = 2) [user1] = None
   \<and> update_user (Some conn1) 2 (Some ''Asha K'') None None None =
       (Inl (DeviceError (''Failed to update user: User with UID '' @ str_of_int 2
                          @ '' not found on device'')), Some conn1)
   \<and> find (\<lambda>u. u_uid u = 1) [user1] = Some user1
   \<and> update_user (Some conn1) 1 (Some ''Asha K'') None None None =
       (Inr [(''success'', PBool True),
             (''message'', PStr (''User '' @ str_of_int 1 @ '' updated successfully''))],
        Some (conn1\<lparr>zk_written :=
           [\<lparr>u_uid = 1, u_user_id = ''E100'', u_name = ''Asha K'', u_privilege = 0,
             u_password = ''1234'', u_card = PInt 77\<rparr>]\<rparr>))
   \<and> snd (update_user (Some conn1) 1 None None None None) =
       Some (conn1\<lparr>zk_written := [user1]\<rparr>)"
proof -
  have u: "zk_users conn1 = Inr [user1]" by (simp add: conn1_def)
  have f2: "find (\<lambda>u. u_uid u = 2) [user1] = None" by (simp add: user1_def)
  have f1: "find (\<lambda>u. u_uid u = 1) [user1] = Some user1" by (simp add: user1_def)
  have ok: "\<And>w. zk_set_user_fails conn1 w = None" by (simp add: conn1_def)
  have w: "zk_written conn1 = []" by (simp add: conn1_def)
  note t2 = update_user_merges_with_existing [OF u, of 2 "Some ''Asha K''" None None None]
  note t1 = update_user_merges_with_existing [OF u, of 1 "Some ''Asha K''" None None None]
  from t2 f2 have c2: "update_user (Some conn1) 2 (Some ''Asha K'') None None None =
       (Inl (DeviceError (''Failed to update user: User with UID '' @ str_of_int 2
                          @ '' not found on device'')), Some conn1)"
    by blast
  from t1 f1 ok have c1: "update_user (Some conn1) 1 (Some ''Asha K'') None None None =
       (Inr [(''success'', PBool True),
             (''message'', PStr (''User '' @ str_of_int 1 @ '' updated successfully''))],
        Some (conn1\<lparr>zk_written :=
           [\<lparr>u_uid = 1, u_user_id = ''E100'', u_name = ''Asha K'', u_privilege = 0,
             u_password = ''1234'', u_card = PInt 77\<rparr>]\<rparr>))"
    by (simp add: w user1_def)
  from t1 f1 ok have c3: "snd (update_user (Some conn1) 1 None None None None) =
       Some (conn1\<lparr>zk_written := [user1]\<rparr>)"
    by (simp add: w)
  from u f2 c2 f1 c1 c3 show ?thesis by blast
qed


subsection \<open>Reading the attendance records\<close>

text \<open>
  Claim C9. \<^verbatim>\<open>get_attendance\<close> returns exactly the records whose timestamp lies in
  the requested window and whose user matches, newest first, cut to the limit after
  sorting. The code cuts a bound to whole seconds before it compares
  (\<^verbatim>\<open>int(start_time...timestamp())\<close>), so with a lower bound of half a second past
  1700000000 the record stamped 1700000000, which lies before the bound, is returned;
  and it tests the timestamp of a record for truth before it compares, so under any
  bound the record stamped 0 is left out although it lies in the window. The device
  holds three records, stamped 0, 1700000000 and 1700000100.
\<close>

theorem get_attendance_window_not_exact:
  "get_attendance (Some conn1) (Some 1700000000500000) None None None = Inr [log_b, log_a]
   \<and> attendance_spec raw1 (Some 1700000000500000) None None None = [log_b]
   \<and> \<not> in_window (Some 1700000000500000) None log_a
   \<and> get_attendance (Some conn1) (Some (- 1000000)) None None None = Inr [log_b, log_a]
   \<and> attendance_spec raw1 (Some (- 1000000)) None None None = [log_b, log_a, log_epoch]
   \<and> in_window (Some (- 1000000)) None log_epoch"
  by (simp add: get_attendance_def attendance_spec_def conn1_def raw1_def log_dict_def
        format_datetime_def ts_at_least_def epoch_of_def sort_newest_first_def sort_ts_def
        in_window_def user_matches_def log_a_def log_b_def log_epoch_def Let_def)


section \<open>The command handler: what comes back\<close>

lemma starts_with_self: "starts_with s (s @ t)"
  by (induction s) auto

lemma mentions_suffix: "mentions s (p @ s)"
proof (induction p)
  case Nil
  show ?case using starts_with_self [of s "[]"] by (cases s) auto
next
  case (Cons a p)
  then show ?case by simp
qed

lemma not_management:
  "device_command ce \<Longrightarrow>
   (case ce_command ce of
      Some c \<Rightarrow> (if c \<in> set management_commands then Some c else None)
    | None \<Rightarrow> None) = None"
  by (cases "ce_command ce") (simp_all add: device_command_def)

lemma format_result_mapping: "is_mapping (format_result c r)"
  by (cases r) (auto simp: format_result_def)

text \<open>
  Whenever \<^verbatim>\<open>execute_command\<close> returns an envelope, its \<open>result\<close> is a mapping: the
  list an operation returns is wrapped by \<^verbatim>\<open>format_result\<close>, and the management branch
  returns only for results that are mappings.
\<close>

lemma execute_command_result_is_mapping:
  "execute_command w p ce = Inr (p', env) \<Longrightarrow> is_mapping (re_result env)"
  by (auto simp: execute_command_def execute_management_command_def make_envelope_def Let_def
        format_result_mapping
      split: option.splits if_splits sum.splits prod.splits pyval.splits)

text \<open>
  Claim C1. The \<open>result\<close> of every envelope that \<^verbatim>\<open>execute_command\<close> produces is a
  mapping, also for the management commands such as \<open>list_devices\<close>. For
  \<open>list_devices\<close> the code produces no envelope at all: the registry returns a list,
  \<^verbatim>\<open>result.get("success", True)\<close> fails on it, and the handler leaves with a
  \<open>DeviceError\<close>, whatever the registry, the parameters and the routing fields are.
\<close>

theorem execute_command_list_devices_raises:
  "execute_command w p
     \<lparr>ce_id = cid, ce_command = Some ''list_devices'', ce_params = ps,
      ce_device_id = d, ce_device_ip = ip\<rparr>
   = Inl (DeviceError no_get_on_list)"
  by (simp add: execute_command_def management_commands_def execute_management_command_def
        management_result_def Let_def)

text \<open>
  Claim C7, as stated: an unknown command name gives a structured failure whose error
  mentions the unknown command. A command with an unknown name and no routing target
  is answered with the message of the missing routing target, which names neither the
  command nor that it is unknown.
\<close>

theorem unknown_command_without_target_counterexample:
  "execute_command echo_world empty_pool bogus_without_target
   = Inr (empty_pool,
          make_envelope echo_world (Some ''42'') (Some ''bogus_cmd'')
            (PDict [(''error'', PStr ''Missing device_id or device_ip in command'')])
            (PStr []) (PStr []) (PBool False))
   \<and> \<not> mentions ''bogus_cmd'' ''Missing device_id or device_ip in command''
   \<and> \<not> mentions ''Unknown command'' ''Missing device_id or device_ip in command''"
  by (simp add: execute_command_def bogus_without_target_def management_commands_def
        str_or_def str_truthy_def Let_def)

text \<open>
  Claim C7, amended. For a command that is not a management command the handler
  checks in this order and returns a failure envelope (\<open>success\<close> false, the registry
  unchanged) with a message of its own for each case: no routing target (\<open>device_id\<close>
  and \<open>device_ip\<close> both missing or empty); a routing target but a missing or empty
  command; a routing target and a non-empty command that the command map does not
  know, where the message is \<open>Unknown command: \<close> followed by the command.
\<close>

theorem execute_command_structured_failures:
  assumes "device_command ce"
  shows "(\<not> str_truthy (routing_target ce) \<longrightarrow>
            execute_command w p ce
            = Inr (p, make_envelope w (ce_id ce) (ce_command ce)
                        (PDict [(''error'', PStr ''Missing device_id or device_ip in command'')])
                        (PStr []) (PStr []) (PBool False)))
       \<and> (\<forall>ident. routing_target ce = Some ident \<and> ident \<noteq> []
                   \<and> \<not> str_truthy (ce_command ce) \<longrightarrow>
            execute_command w p ce
            = Inr (p, make_envelope w (ce_id ce) (ce_command ce)
                        (PDict [(''error'', PStr ''Missing command in request'')])
                        (PStr []) (PStr ident) (PBool False)))
       \<and> (\<forall>ident c. routing_target ce = Some ident \<and> ident \<noteq> []
                   \<and> ce_command ce = Some c \<and> c \<noteq> [] \<and> map_of command_map c = None \<longrightarrow>
            execute_command w p ce
            = Inr (p, make_envelope w (ce_id ce) (Some c)
                        (PDict [(''error'', PStr (''Unknown command: '' @ c))])
                        (PStr []) (PStr ident) (PBool False))
            \<and> mentions c (''Unknown command: '' @ c)
            \<and> ''Unknown command: '' @ c \<noteq> ''Missing command in request''
            \<and> ''Unknown command: '' @ c \<noteq> ''Missing device_id or device_ip in command'')"
proof (intro conjI allI impI)
  assume "\<not> str_truthy (routing_target ce)"
  then show "execute_command w p ce
            = Inr (p, make_envelope w (ce_id ce) (ce_command ce)
                        (PDict [(''error'', PStr ''Missing device_id or device_ip in command'')])
                        (PStr []) (PStr []) (PBool False))"
    using not_management [OF assms]
    by (simp add: execute_command_def routing_target_def Let_def)
next
  fix ident
  assume "routing_target ce = Some ident \<and> ident \<noteq> [] \<and> \<not> str_truthy (ce_command ce)"
  then show "execute_command w p ce
            = Inr (p, make_envelope w (ce_id ce) (ce_command ce)
                        (PDict [(''error'', PStr ''Missing command in request'')])
                        (PStr []) (PStr ident) (PBool False))"
    using not_management [OF assms]
    by (simp add: execute_command_def routing_target_def Let_def str_truthy_def)
next
  fix ident c
  assume h: "routing_target ce = Some ident \<and> ident \<noteq> []
             \<and> ce_command ce = Some c \<and> c \<noteq> [] \<and> map_of command_map c = None"
  then show "execute_command w p ce
            = Inr (p, make_envelope w (ce_id ce) (Some c)
                        (PDict [(''error'', PStr (''Unknown command: '' @ c))])
                        (PStr []) (PStr ident) (PBool False))"
    using not_management [OF assms]
    by (simp add: execute_command_def routing_target_def Let_def str_truthy_def)
  show "mentions c (''Unknown command: '' @ c)" by (rule mentions_suffix)
  show "''Unknown command: '' @ c \<noteq> ''Missing command in request''"
    by simp
  show "''Unknown command: '' @ c \<noteq> ''Missing device_id or device_ip in command''"
    by simp
qed

theorem execute_command_structured_failures_witness:
  "execute_command echo_world empty_pool bogus_with_target
   = Inr (empty_pool,
          make_envelope echo_world (Some ''42'') (Some ''bogus_cmd'')
            (PDict [(''error'', PStr ''Unknown command: bogus_cmd'')])
            (PStr []) (PStr ''device_001'') (PBool False))
   \<and> execute_command echo_world empty_pool empty_command_with_target
   = Inr (empty_pool,
          make_envelope echo_world (Some ''43'') (Some [])
            (PDict [(''error'', PStr ''Missing command in request'')])
            (PStr []) (PStr ''10.0.0.5'') (PBool False))
   \<and> execute_command echo_world empty_pool bogus_without_target
   = Inr (empty_pool,
          make_envelope echo_world (Some ''42'') (Some ''bogus_cmd'')
            (PDict [(''error'', PStr ''Missing device_id or device_ip in command'')])
            (PStr []) (PStr []) (PBool False))"
proof -
  have d: "device_command bogus_with_target"
    by (simp add: device_command_def bogus_with_target_def management_commands_def)
  have r: "routing_target bogus_with_target = Some ''device_001''"
    by (simp add: routing_target_def bogus_with_target_def str_or_def)
  have c: "ce_command bogus_with_target = Some ''bogus_cmd''"
    by (simp add: bogus_with_target_def)
  have m: "map_of command_map ''bogus_cmd'' = None"
    by (simp add: command_map_def)
  have i: "ce_id bogus_with_target = Some ''42''"
    by (simp add: bogus_with_target_def)
  have one: "execute_command echo_world empty_pool bogus_with_target
   = Inr (empty_pool,
          make_envelope echo_world (Some ''42'') (Some ''bogus_cmd'')
            (PDict [(''error'', PStr ''Unknown command: bogus_cmd'')])
            (PStr []) (PStr ''device_001'') (PBool False))"
    using execute_command_structured_failures [OF d, of echo_world empty_pool] r c m i
    by simp
  have d2: "device_command empty_command_with_target"
    by (simp add: device_command_def empty_command_with_target_def management_commands_def)
  have r2: "routing_target empty_command_with_target = Some ''10.0.0.5''"
    by (simp add: routing_target_def empty_command_with_target_def str_or_def)
  have c2: "ce_command empty_command_with_target = Some []"
    by (simp add: empty_command_with_target_def)
  have i2: "ce_id empty_command_with_target = Some ''43''"
    by (simp add: empty_command_with_target_def)
  have two: "execute_command echo_world empty_pool empty_command_with_target
   = Inr (empty_pool,
          make_envelope echo_world (Some ''43'') (Some [])
            (PDict [(''error'', PStr ''Missing command in request'')])
            (PStr []) (PStr ''10.0.0.5'') (PBool False))"
    using execute_command_structured_failures [OF d2, of echo_world empty_pool] r2 c2 i2
    by (simp add: str_truthy_def)
  have d3: "device_command bogus_without_target"
    by (simp add: device_command_def bogus_without_target_def management_commands_def)
  have r3: "routing_target bogus_without_target = None"
    by (simp add: routing_target_def bogus_without_target_def str_or_def)
  have c3: "ce_command bogus_without_target = Some ''bogus_cmd''"
    by (simp add: bogus_without_target_def)
  have i3: "ce_id bogus_without_target = Some ''42''"
    by (simp add: bogus_without_target_def)
  have three: "execute_command echo_world empty_pool bogus_without_target
   = Inr (empty_pool,
          make_envelope echo_world (Some ''42'') (Some ''bogus_cmd'')
            (PDict [(''error'', PStr ''Missing device_id or device_ip in command'')])
            (PStr []) (PStr []) (PBool False))"
    using execute_command_structured_failures [OF d3, of echo_world empty_pool] r3 c3 i3
    by (simp add: str_truthy_def)
  from one two three show ?thesis by simp
qed


subsection \<open>The parameters of \<^verbatim>\<open>get_attendance\<close>\<close>

text \<open>
  Claim C8. A \<open>start_time\<close> or \<open>end_time\<close> that is present in the parameters of a
  \<open>get_attendance\<close> command is converted to a \<open>datetime\<close> before the operation is
  invoked, and \<open>limit\<close> is set to 1000 when absent. The code says so itself
  (\<^verbatim>\<open># Convert timestamps to datetime if provided\<close>) but tests \<^verbatim>\<open>if end_time:\<close>, so
  the timestamp 0, which is provided and which \<^verbatim>\<open>fromtimestamp\<close> accepts, reaches the
  operation as the integer it was; a timestamp that is not 0 is converted. The device
  here answers with the keyword arguments it received.
\<close>

theorem get_attendance_zero_end_time_unconverted:
  "execute_command echo_world empty_pool attendance_until_epoch
   = Inr (empty_pool,
          make_envelope echo_world (Some ''8'') (Some ''get_attendance'')
            (PDict [(''end_time'', PInt 0), (''limit'', PInt 1000)])
            (PStr ''10.0.0.5'') (PStr ''10.0.0.5'') (PBool True))
   \<and> fromtimestamp (PInt 0) = Inr (PDateTime 0)
   \<and> execute_command echo_world empty_pool attendance_since
   = Inr (empty_pool,
          make_envelope echo_world (Some ''9'') (Some ''get_attendance'')
            (PDict [(''start_time'', PDateTime 1700000000), (''limit'', PInt 1000)])
            (PStr ''10.0.0.5'') (PStr ''10.0.0.5'') (PBool True))"
  by (simp add: execute_command_def attendance_until_epoch_def attendance_since_def
        management_commands_def
        str_or_def str_truthy_def Let_def command_map_def attendance_params_def py_get_def
        py_get_default_def clashing_keyword_def dict_has_def execute_on_device_def
        empty_pool_def get_device_core_by_ip_def echo_world_def routing_params_def
        update_last_seen_def format_result_def make_envelope_def)


section \<open>The stream engine: counters and the overflow queue\<close>

text \<open>Every operation of an engine only takes it forward.\<close>

lemma advances_refl: "advances e e"
  by (simp add: advances_def counters_le_def)

lemma advances_did: "advances e0 e \<Longrightarrow> advances e0 (did a e)"
  by (simp add: advances_def did_def queue_bounded_def)

lemma advances_log_error: "advances e0 e \<Longrightarrow> advances e0 (log_error ew e msg)"
  by (simp add: advances_def log_error_def queue_bounded_def counters_le_def Let_def)

lemma advances_queue_failed_event:
  "advances e0 e \<Longrightarrow> advances e0 (queue_failed_event ew e payload)"
  by (auto simp: advances_def queue_failed_event_def put_nowait_def log_error_def
        queue_bounded_def counters_le_def Let_def split: queue_full.splits)

lemma advances_attempt_post: "advances e0 e \<Longrightarrow> advances e0 (attempt_post payload e)"
  by (simp add: advances_def attempt_post_def did_def queue_bounded_def)

lemma advances_sent_ok: "advances e0 e \<Longrightarrow> advances e0 (sent_ok ew e)"
  by (simp add: advances_def sent_ok_def queue_bounded_def counters_le_def)

lemma advances_count_failed: "advances e0 e \<Longrightarrow> advances e0 (count_failed e)"
  by (simp add: advances_def count_failed_def queue_bounded_def counters_le_def)

lemma advances_count_historical: "advances e0 e \<Longrightarrow> advances e0 (count_historical e)"
  by (simp add: advances_def count_historical_def queue_bounded_def counters_le_def)

lemma advances_count_realtime: "advances e0 e \<Longrightarrow> advances e0 (count_realtime e)"
  by (simp add: advances_def count_realtime_def queue_bounded_def counters_le_def)

lemma advances_device_connect:
  "advances e0 e \<Longrightarrow> advances e0 (fst (device_connect ew e))"
  by (simp add: advances_def device_connect_def did_def queue_bounded_def Let_def
        split: option.splits)

lemma advances_device_disconnect: "advances e0 e \<Longrightarrow> advances e0 (device_disconnect e)"
  by (simp add: advances_def device_disconnect_def did_def queue_bounded_def)

lemma advances_mode: "advances e0 e \<Longrightarrow> advances e0 (e\<lparr>sm_mode := m\<rparr>)"
  by (simp add: advances_def queue_bounded_def)

lemma advances_captures: "advances e0 e \<Longrightarrow> advances e0 (e\<lparr>sm_captures := n\<rparr>)"
  by (simp add: advances_def queue_bounded_def)

lemma advances_send_loop:
  "advances e0 e \<Longrightarrow> advances e0 (fst (send_loop ew payload attempt e))"
proof (induction ew payload attempt e rule: send_loop.induct)
  case (1 ew payload attempt e)
  show ?case
    apply (subst send_loop.simps)
    using 1
    by (auto simp: Let_def advances_did advances_attempt_post advances_sent_ok
          advances_count_failed advances_queue_failed_event split: http_outcome.splits)
qed

lemma advances_send:
  "advances e0 e \<Longrightarrow> advances e0 (fst (send_event_to_server ew e event_data event_type))"
  by (simp add: send_event_to_server_def advances_send_loop)

lemma advances_reconnect_loop:
  "advances e0 e \<Longrightarrow> advances e0 (reconnect_loop ew attempt e)"
proof (induction ew attempt e rule: reconnect_loop.induct)
  case (1 ew attempt e)
  have c: "advances e0 (fst (device_connect ew e))"
    using 1(3) by (rule advances_device_connect)
  show ?case
    apply (subst reconnect_loop.simps)
    using 1 c
    by (auto simp: advances_did advances_mode split: prod.splits option.splits)
qed

lemma advances_reconnect: "advances e0 e \<Longrightarrow> advances e0 (reconnect ew e)"
  by (simp add: reconnect_def advances_reconnect_loop advances_did
        advances_device_disconnect advances_mode)

lemma advances_sync_logs: "advances e0 e \<Longrightarrow> advances e0 (fst (sync_logs ew logs e))"
proof (induction logs arbitrary: e)
  case Nil
  then show ?case by simp
next
  case (Cons log logs)
  have s: "advances e0 (fst (send_event_to_server ew e log HISTORICAL))"
    using Cons.prems by (rule advances_send)
  show ?case
    using Cons.prems s
    by (auto simp: advances_did advances_count_historical
          intro!: Cons.IH split: prod.splits sum.splits)
qed

lemma advances_sync_historical_logs:
  "advances e0 e \<Longrightarrow> advances e0 (sync_historical_logs ew e)"
proof -
  assume a: "advances e0 e"
  have c: "advances e0 (fst (device_connect ew (e\<lparr>sm_mode := SYNCING\<rparr>)))"
    using a by (simp add: advances_device_connect advances_mode)
  have d: "\<And>logs. advances e0
              (fst (sync_logs ew logs (fst (device_connect ew (e\<lparr>sm_mode := SYNCING\<rparr>)))))"
    using c by (rule advances_sync_logs)
  show ?thesis
    using a c d
    by (auto simp: sync_historical_logs_def advances_log_error
          dest!: arg_cong [where f = fst]
          split: prod.splits option.splits sum.splits)
qed

lemma advances_capture_events:
  "advances e0 e \<Longrightarrow> advances e0 (fst (capture_events ew xs e))"
proof (induction xs arbitrary: e)
  case Nil
  then show ?case by simp
next
  case (Cons x xs)
  show ?case
  proof (cases x)
    case None
    then show ?thesis using Cons by simp
  next
    case (Some a)
    have s: "advances e0 (fst (send_event_to_server ew e (format_attendance_event ew a) REALTIME))"
      using Cons.prems by (rule advances_send)
    show ?thesis
      using Cons.prems s Some
      by (auto simp: advances_count_realtime intro!: Cons.IH split: prod.splits sum.splits)
  qed
qed

lemma advances_capture_pass: "advances e0 e \<Longrightarrow> advances e0 (capture_pass ew e)"
proof -
  assume a: "advances e0 e"
  have c: "advances e0 (fst (capture_events ew (fst (ew_capture ew (sm_captures e)))
             (did LiveCapture (e\<lparr>sm_captures := Suc (sm_captures e)\<rparr>))))"
    using a by (simp add: advances_capture_events advances_did advances_captures)
  show ?thesis
    using c
    by (auto simp: capture_pass_def advances_reconnect advances_log_error
          split: prod.splits capture_end.splits loop_end.splits)
qed

lemma advances_live_iteration: "advances e0 e \<Longrightarrow> advances e0 (live_iteration ew e)"
proof -
  assume a: "advances e0 e"
  have c: "advances e0 (fst (device_connect ew e))"
    using a by (rule advances_device_connect)
  show ?thesis
    using a c
    by (auto simp: live_iteration_def advances_reconnect advances_log_error
          advances_capture_pass split: prod.splits option.splits if_splits)
qed

lemma advances_live_while: "advances e0 e \<Longrightarrow> advances e0 (live_while ew n e)"
  by (induction n arbitrary: e) (simp_all add: advances_live_iteration)

lemma advances_live_stream_loop:
  "advances e0 e \<Longrightarrow> advances e0 (live_stream_loop ew n e)"
  by (simp add: live_stream_loop_def advances_live_while advances_mode)

lemma advances_start: "advances e0 e \<Longrightarrow> advances e0 (fst (start ew e))"
  by (simp add: start_def advances_def queue_bounded_def counters_le_def Let_def)

lemma advances_stop: "advances e0 e \<Longrightarrow> advances e0 (fst (stop ew e))"
  by (simp add: stop_def advances_def queue_bounded_def counters_le_def Let_def
        device_disconnect_def did_def)

lemma advances_engine_step: "advances e0 e \<Longrightarrow> advances e0 (engine_step ew e op)"
  by (cases op)
     (simp_all add: advances_start advances_stop advances_sync_historical_logs
        advances_live_stream_loop advances_send advances_queue_failed_event
        advances_reconnect advances_log_error)

lemma advances_engine_run: "advances e0 e \<Longrightarrow> advances e0 (engine_run ew e ops)"
  by (induction ops arbitrary: e) (simp_all add: advances_engine_step)


subsection \<open>Posting an event\<close>

lemma send_loop_4:
  "send_loop ew p (Suc (Suc (Suc (Suc 0)))) e
   = (queue_failed_event ew (count_failed e) p, Inr False)"
  by (subst send_loop.simps) (simp add: MAX_RETRY_ATTEMPTS_def)

lemma send_loop_3:
  "send_loop ew p (Suc (Suc (Suc 0))) e =
     (case post_raises (ew_post ew (sm_posts e)) of
        Some msg \<Rightarrow> (attempt_post p e, Inl msg)
      | None \<Rightarrow>
          if post_ok (ew_post ew (sm_posts e)) then (sent_ok ew (attempt_post p e), Inr True)
          else (queue_failed_event ew (count_failed (attempt_post p e)) p, Inr False))"
  by (subst send_loop.simps)
     (simp add: MAX_RETRY_ATTEMPTS_def post_ok_def post_raises_def Let_def send_loop_4
        split: http_outcome.splits)

lemma send_loop_2:
  "send_loop ew p (Suc (Suc 0)) e =
     (case post_raises (ew_post ew (sm_posts e)) of
        Some msg \<Rightarrow> (attempt_post p e, Inl msg)
      | None \<Rightarrow>
          if post_ok (ew_post ew (sm_posts e)) then (sent_ok ew (attempt_post p e), Inr True)
          else send_loop ew p (Suc (Suc (Suc 0)))
                 (did (Sleep (RETRY_DELAY_SECONDS * 1000)) (attempt_post p e)))"
  by (subst send_loop.simps)
     (simp add: MAX_RETRY_ATTEMPTS_def post_ok_def post_raises_def Let_def
        split: http_outcome.splits)

lemma send_loop_1:
  "send_loop ew p (Suc 0) e =
     (case post_raises (ew_post ew (sm_posts e)) of
        Some msg \<Rightarrow> (attempt_post p e, Inl msg)
      | None \<Rightarrow>
          if post_ok (ew_post ew (sm_posts e)) then (sent_ok ew (attempt_post p e), Inr True)
          else send_loop ew p (Suc (Suc 0))
                 (did (Sleep (RETRY_DELAY_SECONDS * 1000)) (attempt_post p e)))"
  by (subst send_loop.simps)
     (simp add: MAX_RETRY_ATTEMPTS_def post_ok_def post_raises_def Let_def
        split: http_outcome.splits)

lemma failed_attempt_iff:
  "failed_attempt r = (\<not> post_ok r \<and> post_raises r = None)"
  by (simp add: failed_attempt_def post_ok_def post_raises_def split: http_outcome.splits)

lemma post_raises_iff: "(post_raises r = Some msg) = (r = PostRaises msg)"
  by (simp add: post_raises_def split: http_outcome.splits)

lemma post_ok_not_raises: "post_ok r \<Longrightarrow> post_raises r = None"
  by (simp add: post_ok_def post_raises_def split: http_outcome.splits)

lemmas send_unfold = send_event_to_server_def send_loop_1 send_loop_2 send_loop_3

lemmas engine_fields = attempt_post_def did_def sent_ok_def count_failed_def
  queue_failed_event_def put_nowait_def log_error_def Let_def

text \<open>
  The number of attempts a send makes: it goes on to the next attempt, up to the
  third, after an attempt that failed.
\<close>

lemma send_posts:
  "sm_posts (fst (send_event_to_server ew e d ty)) =
     sm_posts e + (if \<not> failed_attempt (ew_post ew (sm_posts e)) then 1
                   else if \<not> failed_attempt (ew_post ew (Suc (sm_posts e))) then 2 else 3)"
  by (simp add: send_unfold engine_fields failed_attempt_iff
        split: sum.splits queue_full.splits option.splits)

lemma send_trace:
  "sm_trace (fst (send_event_to_server ew e d ty)) =
     sm_trace e @
       (if \<not> failed_attempt (ew_post ew (sm_posts e))
        then [Post (make_payload ew e d ty)]
        else if \<not> failed_attempt (ew_post ew (Suc (sm_posts e)))
        then [Post (make_payload ew e d ty), Sleep 5000, Post (make_payload ew e d ty)]
        else [Post (make_payload ew e d ty), Sleep 5000, Post (make_payload ew e d ty),
              Sleep 5000, Post (make_payload ew e d ty)])"
  by (simp add: send_unfold engine_fields failed_attempt_iff RETRY_DELAY_SECONDS_def
        split: sum.splits queue_full.splits option.splits)

lemma send_result:
  "snd (send_event_to_server ew e d ty) =
     (if \<not> failed_attempt (ew_post ew (sm_posts e))
      then (case post_raises (ew_post ew (sm_posts e)) of
              Some msg \<Rightarrow> Inl msg | None \<Rightarrow> Inr True)
      else if \<not> failed_attempt (ew_post ew (Suc (sm_posts e)))
      then (case post_raises (ew_post ew (Suc (sm_posts e))) of
              Some msg \<Rightarrow> Inl msg | None \<Rightarrow> Inr True)
      else (case post_raises (ew_post ew (Suc (Suc (sm_posts e)))) of
              Some msg \<Rightarrow> Inl msg
            | None \<Rightarrow> Inr (post_ok (ew_post ew (Suc (Suc (sm_posts e)))))))"
  by (simp add: send_unfold engine_fields failed_attempt_iff split: option.splits)

lemma send_success_stats:
  "snd (send_event_to_server ew e d ty) = Inr True \<Longrightarrow>
   sm_stats (fst (send_event_to_server ew e d ty)) =
     (sm_stats e)\<lparr>total_events_sent := total_events_sent (sm_stats e) + 1,
                   last_event_time := Some (ew_now ew)\<rparr>
   \<and> sm_event_queue (fst (send_event_to_server ew e d ty)) = sm_event_queue e"
  by (simp add: send_unfold engine_fields split: if_splits option.splits)

lemma send_raised_stats:
  "snd (send_event_to_server ew e d ty) = Inl msg \<Longrightarrow>
   sm_stats (fst (send_event_to_server ew e d ty)) = sm_stats e
   \<and> sm_event_queue (fst (send_event_to_server ew e d ty)) = sm_event_queue e"
  by (simp add: send_unfold engine_fields split: if_splits option.splits)

lemma send_failure_room:
  "snd (send_event_to_server ew e d ty) = Inr False \<Longrightarrow>
   length (sm_event_queue e) < 1000 \<Longrightarrow>
   sm_stats (fst (send_event_to_server ew e d ty)) =
     (sm_stats e)\<lparr>failed_events := failed_events (sm_stats e) + 1\<rparr>
   \<and> sm_event_queue (fst (send_event_to_server ew e d ty)) =
       sm_event_queue e @ [make_payload ew e d ty]"
  by (simp add: send_unfold engine_fields EVENT_QUEUE_MAX_SIZE_def
        split: if_splits option.splits)

lemma send_failure_full:
  "snd (send_event_to_server ew e d ty) = Inr False \<Longrightarrow>
   length (sm_event_queue e) \<ge> 1000 \<Longrightarrow>
   failed_events (sm_stats (fst (send_event_to_server ew e d ty))) =
     failed_events (sm_stats e) + 1
   \<and> total_events_sent (sm_stats (fst (send_event_to_server ew e d ty))) =
     total_events_sent (sm_stats e)
   \<and> sm_event_queue (fst (send_event_to_server ew e d ty)) = sm_event_queue e
   \<and> last (errors (sm_stats (fst (send_event_to_server ew e d ty)))) =
       (''Event queue full - event discarded'', ew_now ew)"
  by (simp add: send_unfold engine_fields EVENT_QUEUE_MAX_SIZE_def
        split: if_splits option.splits)

lemma engine_run_queue_bounded:
  "queue_bounded (engine_run ew (StreamManager dev_ip dev_id) ops)"
proof -
  have "advances (StreamManager dev_ip dev_id) (engine_run ew (StreamManager dev_ip dev_id) ops)"
    by (rule advances_engine_run) (rule advances_refl)
  moreover have "queue_bounded (StreamManager dev_ip dev_id)"
    by (simp add: queue_bounded_def StreamManager_def)
  ultimately show ?thesis by (simp add: advances_def)
qed

lemma failed_attempt_status:
  "(c < 200 \<or> 300 \<le> c \<longrightarrow> failed_attempt (Response c)) \<and> failed_attempt (RequestError m)"
  by (auto simp: failed_attempt_def)

text \<open>
  Claim C5, as stated: no exception is ever raised from the posting path. The retry
  loop catches \<^verbatim>\<open>httpx.RequestError\<close> and nothing else, so an exception of another
  class raised by \<^verbatim>\<open>http_client.post\<close> leaves \<^verbatim>\<open>_send_event_to_server\<close>: here the
  client has been closed, and the event is neither counted as failed nor queued.
\<close>

theorem post_raising_leaves_send_counterexample:
  "snd (send_event_to_server client_closed engine1 event1 REALTIME)
   = Inl ''Cannot send a request, as the client has been closed.''
   \<and> sm_trace (fst (send_event_to_server client_closed engine1 event1 REALTIME))
     = [Post [(''device_id'', PStr ''device_001''), (''event_type'', PStr ''realtime''),
              (''event_data'', PDict event1), (''timestamp'', PInt 1700000000)]]
   \<and> sm_event_queue (fst (send_event_to_server client_closed engine1 event1 REALTIME)) = []
   \<and> failed_events
       (sm_stats (fst (send_event_to_server client_closed engine1 event1 REALTIME))) = 0"
  by (simp add: send_unfold engine_fields client_closed_def server_down_def engine1_def
        StreamManager_def post_raises_def make_payload_def)

text \<open>
  Claim C5, amended. Posting one event makes one, two or three attempts to post the
  payload (the device id, the event type, the event and the time), with a sleep of 5
  seconds between two attempts and nothing else in between; an attempt is followed by
  another only if it failed, which a status below 200 or from 300 on and a transport
  error do. The call returns true when the last attempt made was answered with 200,
  201 or 204; when the third attempt has failed it returns false, the counter of failed
  events is one more, and the payload is appended to the overflow queue if that holds
  fewer than 1000 payloads, and otherwise the queue stays as it is and the drop is
  logged as an error; only an exception of \<^verbatim>\<open>http_client.post\<close> that is not a
  transport error leaves the call, with the queue and the statistics as they were. The
  queue of an engine never holds more than 1000 payloads, whatever the engine does in
  its life.
\<close>

theorem send_event_retries_then_queues:
  "let p = [(''device_id'', PStr (sm_device_id e)),
            (''event_type'', PStr (event_type_value event_type)),
            (''event_data'', PDict event_data),
            (''timestamp'', PInt (ew_now ew))]
   in \<exists>e' res k.
      send_event_to_server ew e event_data event_type = (e', res)
    \<and> k \<in> {1, 2, 3}
    \<and> sm_posts e' = sm_posts e + k
    \<and> sm_trace e' = sm_trace e @
         (if k = 1 then [Post p]
          else if k = 2 then [Post p, Sleep 5000, Post p]
          else [Post p, Sleep 5000, Post p, Sleep 5000, Post p])
    \<and> (\<forall>j. j + 1 < k \<longrightarrow> failed_attempt (ew_post ew (sm_posts e + j)))
    \<and> (post_ok (ew_post ew (sm_posts e + k - 1)) \<longrightarrow>
          res = Inr True
        \<and> sm_event_queue e' = sm_event_queue e
        \<and> failed_events (sm_stats e') = failed_events (sm_stats e))
    \<and> (\<forall>msg. ew_post ew (sm_posts e + k - 1) = PostRaises msg \<longrightarrow>
          res = Inl msg
        \<and> sm_event_queue e' = sm_event_queue e
        \<and> sm_stats e' = sm_stats e)
    \<and> (failed_attempt (ew_post ew (sm_posts e + k - 1)) \<longrightarrow>
          k = 3
        \<and> res = Inr False
        \<and> failed_events (sm_stats e') = failed_events (sm_stats e) + 1
        \<and> (if length (sm_event_queue e) < 1000
            then sm_event_queue e' = sm_event_queue e @ [p]
               \<and> errors (sm_stats e') = errors (sm_stats e)
            else sm_event_queue e' = sm_event_queue e
               \<and> last (errors (sm_stats e'))
                 = (''Event queue full - event discarded'', ew_now ew)))
    \<and> (length (sm_event_queue e) \<le> 1000 \<longrightarrow> length (sm_event_queue e') \<le> 1000)
    \<and> length (sm_event_queue (engine_run ew (StreamManager dev_ip dev_id) ops)) \<le> 1000
    \<and> (\<forall>c. c < 200 \<or> 300 \<le> c \<longrightarrow> failed_attempt (Response c))
    \<and> (\<forall>m. failed_attempt (RequestError m))"
proof -
  let ?p = "[(''device_id'', PStr (sm_device_id e)),
            (''event_type'', PStr (event_type_value event_type)),
            (''event_data'', PDict event_data),
            (''timestamp'', PInt (ew_now ew))]"
  let ?r = "send_event_to_server ew e event_data event_type"
  let ?k = "if \<not> failed_attempt (ew_post ew (sm_posts e)) then 1
            else if \<not> failed_attempt (ew_post ew (Suc (sm_posts e))) then 2 else 3 :: nat"
  let ?last = "ew_post ew (sm_posts e + ?k - 1)"
  have mp: "make_payload ew e event_data event_type = ?p"
    by (simp add: make_payload_def)
  have b: "?k \<in> {1, 2, 3}" by simp
  have p: "sm_posts (fst ?r) = sm_posts e + ?k"
    by (rule send_posts)
  have t: "sm_trace (fst ?r) = sm_trace e @
         (if ?k = 1 then [Post ?p]
          else if ?k = 2 then [Post ?p, Sleep 5000, Post ?p]
          else [Post ?p, Sleep 5000, Post ?p, Sleep 5000, Post ?p])"
    using send_trace [of ew e event_data event_type] by (simp add: mp)
  have e: "\<forall>j. j + 1 < ?k \<longrightarrow> failed_attempt (ew_post ew (sm_posts e + j))"
    by (auto simp: less_Suc_eq numeral_2_eq_2 numeral_3_eq_3 split: if_splits)
  have res: "snd ?r = (case post_raises ?last of
                         Some msg \<Rightarrow> Inl msg
                       | None \<Rightarrow> Inr (post_ok ?last))"
    by (auto simp: send_result failed_attempt_iff numeral_2_eq_2 split: option.splits)
  have lastf: "failed_attempt ?last \<longrightarrow> ?k = 3"
    by (simp add: numeral_2_eq_2)
  have s: "post_ok ?last \<longrightarrow>
          snd ?r = Inr True
        \<and> sm_event_queue (fst ?r) = sm_event_queue e
        \<and> failed_events (sm_stats (fst ?r)) = failed_events (sm_stats e)"
  proof
    assume ok: "post_ok ?last"
    then have "snd ?r = Inr True"
      by (simp add: res post_ok_not_raises)
    then show "snd ?r = Inr True
        \<and> sm_event_queue (fst ?r) = sm_event_queue e
        \<and> failed_events (sm_stats (fst ?r)) = failed_events (sm_stats e)"
      using send_success_stats [of ew e event_data event_type] by simp
  qed
  have x: "\<forall>msg. ?last = PostRaises msg \<longrightarrow>
          snd ?r = Inl msg
        \<and> sm_event_queue (fst ?r) = sm_event_queue e
        \<and> sm_stats (fst ?r) = sm_stats e"
  proof (intro allI impI)
    fix msg
    assume "?last = PostRaises msg"
    then have "post_raises ?last = Some msg"
      by (simp only: post_raises_iff)
    then have "snd ?r = Inl msg"
      by (simp add: res)
    then show "snd ?r = Inl msg
        \<and> sm_event_queue (fst ?r) = sm_event_queue e
        \<and> sm_stats (fst ?r) = sm_stats e"
      using send_raised_stats [of ew e event_data event_type msg] by simp
  qed
  have f: "failed_attempt ?last \<longrightarrow>
          ?k = 3
        \<and> snd ?r = Inr False
        \<and> failed_events (sm_stats (fst ?r)) = failed_events (sm_stats e) + 1
        \<and> (if length (sm_event_queue e) < 1000
            then sm_event_queue (fst ?r) = sm_event_queue e @ [?p]
               \<and> errors (sm_stats (fst ?r)) = errors (sm_stats e)
            else sm_event_queue (fst ?r) = sm_event_queue e
               \<and> last (errors (sm_stats (fst ?r)))
                 = (''Event queue full - event discarded'', ew_now ew))"
  proof
    assume fl: "failed_attempt ?last"
    then have k: "?k = 3" using lastf by blast
    from fl have n: "snd ?r = Inr False"
      by (simp add: res failed_attempt_iff)
    show "?k = 3
        \<and> snd ?r = Inr False
        \<and> failed_events (sm_stats (fst ?r)) = failed_events (sm_stats e) + 1
        \<and> (if length (sm_event_queue e) < 1000
            then sm_event_queue (fst ?r) = sm_event_queue e @ [?p]
               \<and> errors (sm_stats (fst ?r)) = errors (sm_stats e)
            else sm_event_queue (fst ?r) = sm_event_queue e
               \<and> last (errors (sm_stats (fst ?r)))
                 = (''Event queue full - event discarded'', ew_now ew))"
    proof (cases "length (sm_event_queue e) < 1000")
      case True
      with send_failure_room [OF n True] k n show ?thesis by (simp add: mp)
    next
      case False
      then have "length (sm_event_queue e) \<ge> 1000" by simp
      from send_failure_full [OF n this] k n False show ?thesis by simp
    qed
  qed
  have q: "length (sm_event_queue e) \<le> 1000 \<longrightarrow> length (sm_event_queue (fst ?r)) \<le> 1000"
    using advances_send [OF advances_refl, of e ew event_data event_type]
    by (simp add: advances_def queue_bounded_def EVENT_QUEUE_MAX_SIZE_def)
  have l: "length (sm_event_queue (engine_run ew (StreamManager dev_ip dev_id) ops)) \<le> 1000"
    using engine_run_queue_bounded [of ew dev_ip dev_id ops]
    by (simp add: queue_bounded_def EVENT_QUEUE_MAX_SIZE_def)
  have c: "(\<forall>c. c < 200 \<or> 300 \<le> c \<longrightarrow> failed_attempt (Response c))
           \<and> (\<forall>m. failed_attempt (RequestError m))"
    using failed_attempt_status by blast
  have pr: "?r = (fst ?r, snd ?r)" by simp
  have "\<exists>e' res k.
      send_event_to_server ew e event_data event_type = (e', res)
    \<and> k \<in> {1, 2, 3}
    \<and> sm_posts e' = sm_posts e + k
    \<and> sm_trace e' = sm_trace e @
         (if k = 1 then [Post ?p]
          else if k = 2 then [Post ?p, Sleep 5000, Post ?p]
          else [Post ?p, Sleep 5000, Post ?p, Sleep 5000, Post ?p])
    \<and> (\<forall>j. j + 1 < k \<longrightarrow> failed_attempt (ew_post ew (sm_posts e + j)))
    \<and> (post_ok (ew_post ew (sm_posts e + k - 1)) \<longrightarrow>
          res = Inr True
        \<and> sm_event_queue e' = sm_event_queue e
        \<and> failed_events (sm_stats e') = failed_events (sm_stats e))
    \<and> (\<forall>msg. ew_post ew (sm_posts e + k - 1) = PostRaises msg \<longrightarrow>
          res = Inl msg
        \<and> sm_event_queue e' = sm_event_queue e
        \<and> sm_stats e' = sm_stats e)
    \<and> (failed_attempt (ew_post ew (sm_posts e + k - 1)) \<longrightarrow>
          k = 3
        \<and> res = Inr False
        \<and> failed_events (sm_stats e') = failed_events (sm_stats e) + 1
        \<and> (if length (sm_event_queue e) < 1000
            then sm_event_queue e' = sm_event_queue e @ [?p]
               \<and> errors (sm_stats e') = errors (sm_stats e)
            else sm_event_queue e' = sm_event_queue e
               \<and> last (errors (sm_stats e'))
                 = (''Event queue full - event discarded'', ew_now ew)))
    \<and> (length (sm_event_queue e) \<le> 1000 \<longrightarrow> length (sm_event_queue e') \<le> 1000)
    \<and> length (sm_event_queue (engine_run ew (StreamManager dev_ip dev_id) ops)) \<le> 1000
    \<and> (\<forall>c. c < 200 \<or> 300 \<le> c \<longrightarrow> failed_attempt (Response c))
    \<and> (\<forall>m. failed_attempt (RequestError m))"
    apply (rule exI [of _ "fst ?r"])
    apply (rule exI [of _ "snd ?r"])
    apply (rule exI [of _ ?k])
    using pr b p t e s x f q l c by blast
  then show ?thesis by (simp only: Let_def)
qed

theorem send_event_retries_then_queues_witness:
  "snd (send_event_to_server server_down engine1 event1 REALTIME) = Inr False
   \<and> sm_trace (fst (send_event_to_server server_down engine1 event1 REALTIME))
     = [Post [(''device_id'', PStr ''device_001''), (''event_type'', PStr ''realtime''),
              (''event_data'', PDict event1), (''timestamp'', PInt 1700000000)],
        Sleep 5000,
        Post [(''device_id'', PStr ''device_001''), (''event_type'', PStr ''realtime''),
              (''event_data'', PDict event1), (''timestamp'', PInt 1700000000)],
        Sleep 5000,
        Post [(''device_id'', PStr ''device_001''), (''event_type'', PStr ''realtime''),
              (''event_data'', PDict event1), (''timestamp'', PInt 1700000000)]]
   \<and> sm_event_queue (fst (send_event_to_server server_down engine1 event1 REALTIME))
     = [[(''device_id'', PStr ''device_001''), (''event_type'', PStr ''realtime''),
         (''event_data'', PDict event1), (''timestamp'', PInt 1700000000)]]
   \<and> failed_events
       (sm_stats (fst (send_event_to_server server_down engine1 event1 REALTIME))) = 1
   \<and> snd (send_event_to_server server_down engine_full event1 REALTIME) = Inr False
   \<and> length (sm_event_queue
       (fst (send_event_to_server server_down engine_full event1 REALTIME))) = 1000
   \<and> last (errors
       (sm_stats (fst (send_event_to_server server_down engine_full event1 REALTIME))))
     = (''Event queue full - event discarded'', 1700000000)"
proof -
  have fa: "\<And>n. failed_attempt (ew_post server_down n)"
    by (simp add: failed_attempt_def server_down_def)
  have z: "sm_trace engine1 = []" "sm_event_queue engine1 = []"
       "failed_events (sm_stats engine1) = 0" "sm_device_id engine1 = ''device_001''"
       "failed_events (sm_stats engine_full) = 0"
       "length (sm_event_queue engine_full) = 1000" "ew_now server_down = 1700000000"
    by (simp_all add: engine_full_def engine1_def StreamManager_def server_down_def)
  from send_event_retries_then_queues [of engine1 REALTIME event1 server_down]
  obtain e' res k where
        r: "send_event_to_server server_down engine1 event1 REALTIME = (e', res)"
    and t: "sm_trace e' = sm_trace engine1 @
         (if k = 1
          then [Post [(''device_id'', PStr (sm_device_id engine1)),
                      (''event_type'', PStr (event_type_value REALTIME)),
                      (''event_data'', PDict event1),
                      (''timestamp'', PInt (ew_now server_down))]]
          else if k = 2
          then [Post [(''device_id'', PStr (sm_device_id engine1)),
                      (''event_type'', PStr (event_type_value REALTIME)),
                      (''event_data'', PDict event1),
                      (''timestamp'', PInt (ew_now server_down))],
                Sleep 5000,
                Post [(''device_id'', PStr (sm_device_id engine1)),
                      (''event_type'', PStr (event_type_value REALTIME)),
                      (''event_data'', PDict event1),
                      (''timestamp'', PInt (ew_now server_down))]]
          else [Post [(''device_id'', PStr (sm_device_id engine1)),
                      (''event_type'', PStr (event_type_value REALTIME)),
                      (''event_data'', PDict event1),
                      (''timestamp'', PInt (ew_now server_down))],
                Sleep 5000,
                Post [(''device_id'', PStr (sm_device_id engine1)),
                      (''event_type'', PStr (event_type_value REALTIME)),
                      (''event_data'', PDict event1),
                      (''timestamp'', PInt (ew_now server_down))],
                Sleep 5000,
                Post [(''device_id'', PStr (sm_device_id engine1)),
                      (''event_type'', PStr (event_type_value REALTIME)),
                      (''event_data'', PDict event1),
                      (''timestamp'', PInt (ew_now server_down))]])"
    and f: "failed_attempt (ew_post server_down (sm_posts engine1 + k - 1)) \<longrightarrow>
          k = 3
        \<and> res = Inr False
        \<and> failed_events (sm_stats e') = failed_events (sm_stats engine1) + 1
        \<and> (if length (sm_event_queue engine1) < 1000
            then sm_event_queue e'
                 = sm_event_queue engine1
                   @ [[(''device_id'', PStr (sm_device_id engine1)),
                       (''event_type'', PStr (event_type_value REALTIME)),
                       (''event_data'', PDict event1),
                       (''timestamp'', PInt (ew_now server_down))]]
               \<and> errors (sm_stats e') = errors (sm_stats engine1)
            else sm_event_queue e' = sm_event_queue engine1
               \<and> last (errors (sm_stats e'))
                 = (''Event queue full - event discarded'', ew_now server_down))"
    unfolding Let_def by blast
  from send_event_retries_then_queues [of engine_full REALTIME event1 server_down]
  obtain e2 res2 k2 where
        r2: "send_event_to_server server_down engine_full event1 REALTIME = (e2, res2)"
    and f2: "failed_attempt (ew_post server_down (sm_posts engine_full + k2 - 1)) \<longrightarrow>
          k2 = 3
        \<and> res2 = Inr False
        \<and> failed_events (sm_stats e2) = failed_events (sm_stats engine_full) + 1
        \<and> (if length (sm_event_queue engine_full) < 1000
            then sm_event_queue e2
                 = sm_event_queue engine_full
                   @ [[(''device_id'', PStr (sm_device_id engine_full)),
                       (''event_type'', PStr (event_type_value REALTIME)),
                       (''event_data'', PDict event1),
                       (''timestamp'', PInt (ew_now server_down))]]
               \<and> errors (sm_stats e2) = errors (sm_stats engine_full)
            else sm_event_queue e2 = sm_event_queue engine_full
               \<and> last (errors (sm_stats e2))
                 = (''Event queue full - event discarded'', ew_now server_down))"
    unfolding Let_def by blast
  from f fa t z have one: "res = Inr False
      \<and> sm_trace e'
     = [Post [(''device_id'', PStr ''device_001''), (''event_type'', PStr ''realtime''),
              (''event_data'', PDict event1), (''timestamp'', PInt 1700000000)],
        Sleep 5000,
        Post [(''device_id'', PStr ''device_001''), (''event_type'', PStr ''realtime''),
              (''event_data'', PDict event1), (''timestamp'', PInt 1700000000)],
        Sleep 5000,
        Post [(''device_id'', PStr ''device_001''), (''event_type'', PStr ''realtime''),
              (''event_data'', PDict event1), (''timestamp'', PInt 1700000000)]]
      \<and> sm_event_queue e'
     = [[(''device_id'', PStr ''device_001''), (''event_type'', PStr ''realtime''),
         (''event_data'', PDict event1), (''timestamp'', PInt 1700000000)]]
      \<and> failed_events (sm_stats e') = 1"
    by simp
  from f2 fa z have two: "res2 = Inr False
      \<and> length (sm_event_queue e2) = 1000
      \<and> last (errors (sm_stats e2)) = (''Event queue full - event discarded'', 1700000000)"
    by simp
  from one two show ?thesis
    unfolding r r2 by simp
qed

text \<open>
  Claim C6. Posting an event succeeds exactly when one of its attempts is answered with
  200, 201 or 204 and the attempts before it have failed; then \<open>total_events_sent\<close> is
  one more than before, \<open>last_event_time\<close> is the time of the delivery, and nothing else
  in the statistics changes. No operation of an engine, and no sequence of operations,
  takes any of the four counters below its earlier value.
\<close>

theorem successful_delivery_counts_once:
  "((snd (send_event_to_server ew e event_data event_type) = Inr True)
      = (post_ok (ew_post ew (sm_posts e))
         \<or> failed_attempt (ew_post ew (sm_posts e))
           \<and> post_ok (ew_post ew (Suc (sm_posts e)))
         \<or> failed_attempt (ew_post ew (sm_posts e))
           \<and> failed_attempt (ew_post ew (Suc (sm_posts e)))
           \<and> post_ok (ew_post ew (Suc (Suc (sm_posts e))))))
   \<and> (snd (send_event_to_server ew e event_data event_type) = Inr True \<longrightarrow>
        sm_stats (fst (send_event_to_server ew e event_data event_type))
        = (sm_stats e)\<lparr>total_events_sent := total_events_sent (sm_stats e) + 1,
                        last_event_time := Some (ew_now ew)\<rparr>)
   \<and> counters_le (sm_stats e)
        (sm_stats (fst (send_event_to_server ew e event_data event_type)))
   \<and> counters_le (sm_stats e) (sm_stats (engine_step ew e op))
   \<and> counters_le (sm_stats e) (sm_stats (engine_run ew e ops))"
proof (intro conjI)
  show "(snd (send_event_to_server ew e event_data event_type) = Inr True)
      = (post_ok (ew_post ew (sm_posts e))
         \<or> failed_attempt (ew_post ew (sm_posts e))
           \<and> post_ok (ew_post ew (Suc (sm_posts e)))
         \<or> failed_attempt (ew_post ew (sm_posts e))
           \<and> failed_attempt (ew_post ew (Suc (sm_posts e)))
           \<and> post_ok (ew_post ew (Suc (Suc (sm_posts e)))))"
    by (auto simp: send_result failed_attempt_iff post_ok_not_raises split: option.splits)
  show "snd (send_event_to_server ew e event_data event_type) = Inr True \<longrightarrow>
        sm_stats (fst (send_event_to_server ew e event_data event_type))
        = (sm_stats e)\<lparr>total_events_sent := total_events_sent (sm_stats e) + 1,
                        last_event_time := Some (ew_now ew)\<rparr>"
    by (simp add: send_success_stats)
  show "counters_le (sm_stats e)
        (sm_stats (fst (send_event_to_server ew e event_data event_type)))"
    using advances_send [OF advances_refl, of e ew event_data event_type]
    by (simp add: advances_def)
  show "counters_le (sm_stats e) (sm_stats (engine_step ew e op))"
    using advances_engine_step [OF advances_refl, of e ew op]
    by (simp add: advances_def)
  show "counters_le (sm_stats e) (sm_stats (engine_run ew e ops))"
    using advances_engine_run [OF advances_refl, of e ew ops]
    by (simp add: advances_def)
qed

theorem successful_delivery_counts_once_witness:
  "snd (send_event_to_server server_flaky engine1 event1 HISTORICAL) = Inr True
   \<and> total_events_sent
       (sm_stats (fst (send_event_to_server server_flaky engine1 event1 HISTORICAL))) = 1
   \<and> last_event_time
       (sm_stats (fst (send_event_to_server server_flaky engine1 event1 HISTORICAL)))
     = Some 1700000000"
proof -
  have z: "sm_posts engine1 = 0" "total_events_sent (sm_stats engine1) = 0"
          "ew_now server_flaky = 1700000000"
          "failed_attempt (ew_post server_flaky 0)"
          "post_ok (ew_post server_flaky (Suc 0))"
    by (simp_all add: engine1_def StreamManager_def server_flaky_def server_down_def
          post_ok_def failed_attempt_def)
  from successful_delivery_counts_once [of server_flaky engine1 event1 HISTORICAL] z
  show ?thesis by simp
qed


subsection \<open>Reconnecting\<close>

lemma reconnect_loop_4:
  "reconnect_loop ew (Suc (Suc (Suc (Suc 0)))) e = e\<lparr>sm_mode := ERROR\<rparr>"
  by (subst reconnect_loop.simps) simp

lemma reconnect_loop_3:
  "sm_is_running e \<Longrightarrow> \<not> sm_connected e \<Longrightarrow>
   reconnect_loop ew (Suc (Suc (Suc 0))) e =
     (case ew_connect ew (sm_connects e) of
        None \<Rightarrow> (did Connect (e\<lparr>sm_connects := Suc (sm_connects e)\<rparr>))\<lparr>sm_connected := True\<rparr>
      | Some msg \<Rightarrow> (did Connect (e\<lparr>sm_connects := Suc (sm_connects e)\<rparr>))\<lparr>sm_mode := ERROR\<rparr>)"
  by (subst reconnect_loop.simps)
     (simp add: device_connect_def Let_def reconnect_loop_4 split: option.splits)

lemma reconnect_loop_2:
  "sm_is_running e \<Longrightarrow> \<not> sm_connected e \<Longrightarrow>
   reconnect_loop ew (Suc (Suc 0)) e =
     (case ew_connect ew (sm_connects e) of
        None \<Rightarrow> (did Connect (e\<lparr>sm_connects := Suc (sm_connects e)\<rparr>))\<lparr>sm_connected := True\<rparr>
      | Some msg \<Rightarrow>
          reconnect_loop ew (Suc (Suc (Suc 0)))
            (did (Sleep 10000) (did Connect (e\<lparr>sm_connects := Suc (sm_connects e)\<rparr>))))"
  by (subst reconnect_loop.simps)
     (simp add: device_connect_def Let_def split: option.splits)

lemma reconnect_loop_1:
  "sm_is_running e \<Longrightarrow> \<not> sm_connected e \<Longrightarrow>
   reconnect_loop ew (Suc 0) e =
     (case ew_connect ew (sm_connects e) of
        None \<Rightarrow> (did Connect (e\<lparr>sm_connects := Suc (sm_connects e)\<rparr>))\<lparr>sm_connected := True\<rparr>
      | Some msg \<Rightarrow>
          reconnect_loop ew (Suc (Suc 0))
            (did (Sleep 10000) (did Connect (e\<lparr>sm_connects := Suc (sm_connects e)\<rparr>))))"
  by (subst reconnect_loop.simps)
     (simp add: device_connect_def Let_def split: option.splits)

lemmas reconnect_unfold = reconnect_def device_disconnect_def did_def
  reconnect_loop_1 reconnect_loop_2 reconnect_loop_3

lemma reconnect_exhausted:
  assumes "sm_is_running e"
      and "ew_connect ew (sm_connects e) \<noteq> None"
      and "ew_connect ew (Suc (sm_connects e)) \<noteq> None"
      and "ew_connect ew (Suc (Suc (sm_connects e))) \<noteq> None"
  shows "reconnect ew e =
           e\<lparr>sm_mode := ERROR, sm_connected := False,
             sm_connects := sm_connects e + 3,
             sm_trace := sm_trace e @ (if sm_connected e then [Disconnect] else [])
                         @ [Sleep 5000, Connect, Sleep 10000, Connect, Sleep 10000, Connect]\<rparr>"
  using assms by (auto simp: reconnect_unfold)

lemma reconnect_first:
  assumes "sm_is_running e"
      and "ew_connect ew (sm_connects e) = None"
  shows "sm_connected (reconnect ew e) \<and> sm_is_running (reconnect ew e)
         \<and> sm_connects (reconnect ew e) = sm_connects e + 1
         \<and> sm_trace (reconnect ew e) =
             sm_trace e @ (if sm_connected e then [Disconnect] else [])
             @ [Sleep 5000, Connect]"
  using assms by (auto simp: reconnect_unfold)

lemma reconnect_second:
  assumes "sm_is_running e"
      and "ew_connect ew (sm_connects e) \<noteq> None"
      and "ew_connect ew (Suc (sm_connects e)) = None"
  shows "sm_connected (reconnect ew e) \<and> sm_is_running (reconnect ew e)
         \<and> sm_connects (reconnect ew e) = sm_connects e + 2
         \<and> sm_trace (reconnect ew e) =
             sm_trace e @ (if sm_connected e then [Disconnect] else [])
             @ [Sleep 5000, Connect, Sleep 10000, Connect]"
  using assms by (auto simp: reconnect_unfold)

lemma reconnect_third:
  assumes "sm_is_running e"
      and "ew_connect ew (sm_connects e) \<noteq> None"
      and "ew_connect ew (Suc (sm_connects e)) \<noteq> None"
      and "ew_connect ew (Suc (Suc (sm_connects e))) = None"
  shows "sm_connected (reconnect ew e) \<and> sm_is_running (reconnect ew e)
         \<and> sm_connects (reconnect ew e) = sm_connects e + 3
         \<and> sm_trace (reconnect ew e) =
             sm_trace e @ (if sm_connected e then [Disconnect] else [])
             @ [Sleep 5000, Connect, Sleep 10000, Connect, Sleep 10000, Connect]"
  using assms by (auto simp: reconnect_unfold)

lemma live_iteration_unconnected:
  "\<not> sm_connected r \<Longrightarrow>
   live_iteration ew r =
     (case ew_connect ew (sm_connects r) of
        None \<Rightarrow>
          capture_pass ew
            ((did Connect (r\<lparr>sm_connects := Suc (sm_connects r)\<rparr>))\<lparr>sm_connected := True\<rparr>)
      | Some msg \<Rightarrow>
          reconnect ew
            (log_error ew (did Connect (r\<lparr>sm_connects := Suc (sm_connects r)\<rparr>))
               (''Device error in live mode: '' @ msg)))"
  by (simp add: live_iteration_def device_connect_def Let_def split: option.splits)

lemma live_iteration_connected:
  "sm_connected r \<Longrightarrow> live_iteration ew r = capture_pass ew r"
  by (simp add: live_iteration_def)

text \<open>
  Claim C2, as stated: when a reconnection sequence exhausts its attempts the engine
  enters the Error state and halts, with no further reconnection attempt or live
  capture until it is restarted from outside; a successful attempt returns the engine
  to the Live state. Here the device refuses four connections and accepts the fifth.
  The first pass of the live loop fails to connect and exhausts a reconnection
  sequence, which sets the mode to Error; the second pass, with nothing done from
  outside, connects and captures. With a device that refuses one connection only, the
  reconnection succeeds and the mode is still Reconnecting.
\<close>

theorem engine_goes_on_after_error_counterexample:
  "sm_mode (engine_run device_away engine1 [OpStart, OpLive 1]) = ERROR
   \<and> sm_trace (engine_run device_away engine1 [OpStart, OpLive 1])
     = [Connect, Sleep 5000, Connect, Sleep 10000, Connect, Sleep 10000, Connect]
   \<and> sm_trace (engine_run device_away engine1 [OpStart, OpLive 2])
     = sm_trace (engine_run device_away engine1 [OpStart, OpLive 1]) @ [Connect, LiveCapture]
   \<and> sm_mode (engine_run device_away engine1 [OpStart, OpLive 2]) = ERROR
   \<and> sm_connected (engine_run device_blinks engine1 [OpStart, OpLive 1])
   \<and> sm_mode (engine_run device_blinks engine1 [OpStart, OpLive 1]) = RECONNECTING"
  by (simp add: engine1_def StreamManager_def start_def live_stream_loop_def
        numeral_2_eq_2 live_iteration_def device_connect_def log_error_def reconnect_def
        device_disconnect_def did_def reconnect_loop_1 reconnect_loop_2 reconnect_loop_3
        capture_pass_def device_away_def device_blinks_def server_up_def server_down_def
        Let_def)

text \<open>
  Claim C2, amended. A reconnection sequence of a running engine disconnects, waits 5
  seconds and makes up to three attempts to connect, 10 seconds apart. When all three
  fail, the mode is Error, the device is not connected, and the engine is still
  running: the live loop goes on with its next pass, which attempts to connect once
  more, and then captures if that succeeds and starts a new reconnection sequence if it
  fails. When one of the three attempts succeeds, the sequence ends there with the
  device connected, and the next pass of the live loop captures.
\<close>

theorem reconnect_exhaustion_sets_error_and_engine_goes_on:
  assumes run: "sm_is_running e"
  shows "(ew_connect ew (sm_connects e) \<noteq> None
          \<and> ew_connect ew (sm_connects e + 1) \<noteq> None
          \<and> ew_connect ew (sm_connects e + 2) \<noteq> None \<longrightarrow>
            reconnect ew e =
              e\<lparr>sm_mode := ERROR, sm_connected := False,
                sm_connects := sm_connects e + 3,
                sm_trace := sm_trace e @ (if sm_connected e then [Disconnect] else [])
                  @ [Sleep 5000, Connect, Sleep 10000, Connect, Sleep 10000, Connect]\<rparr>
          \<and> sm_is_running (reconnect ew e)
          \<and> live_while ew (Suc m) (reconnect ew e)
              = live_while ew m (live_iteration ew (reconnect ew e))
          \<and> live_iteration ew (reconnect ew e) =
              (case ew_connect ew (sm_connects e + 3) of
                 None \<Rightarrow>
                   capture_pass ew
                     ((did Connect ((reconnect ew e)\<lparr>sm_connects := sm_connects e + 4\<rparr>))
                        \<lparr>sm_connected := True\<rparr>)
               | Some msg \<Rightarrow>
                   reconnect ew
                     (log_error ew
                        (did Connect ((reconnect ew e)\<lparr>sm_connects := sm_connects e + 4\<rparr>))
                        (''Device error in live mode: '' @ msg))))
       \<and> (ew_connect ew (sm_connects e) = None \<longrightarrow>
            sm_connects (reconnect ew e) = sm_connects e + 1
          \<and> sm_trace (reconnect ew e) =
              sm_trace e @ (if sm_connected e then [Disconnect] else [])
              @ [Sleep 5000, Connect])
       \<and> (ew_connect ew (sm_connects e) \<noteq> None
          \<and> ew_connect ew (sm_connects e + 1) = None \<longrightarrow>
            sm_connects (reconnect ew e) = sm_connects e + 2
          \<and> sm_trace (reconnect ew e) =
              sm_trace e @ (if sm_connected e then [Disconnect] else [])
              @ [Sleep 5000, Connect, Sleep 10000, Connect])
       \<and> (ew_connect ew (sm_connects e) \<noteq> None
          \<and> ew_connect ew (sm_connects e + 1) \<noteq> None
          \<and> ew_connect ew (sm_connects e + 2) = None \<longrightarrow>
            sm_connects (reconnect ew e) = sm_connects e + 3
          \<and> sm_trace (reconnect ew e) =
              sm_trace e @ (if sm_connected e then [Disconnect] else [])
              @ [Sleep 5000, Connect, Sleep 10000, Connect, Sleep 10000, Connect])
       \<and> (ew_connect ew (sm_connects e) = None
          \<or> ew_connect ew (sm_connects e + 1) = None
          \<or> ew_connect ew (sm_connects e + 2) = None \<longrightarrow>
            sm_connected (reconnect ew e)
          \<and> sm_is_running (reconnect ew e)
          \<and> live_while ew (Suc m) (reconnect ew e)
              = live_while ew m (capture_pass ew (reconnect ew e)))"
proof (intro conjI impI)
  assume a: "ew_connect ew (sm_connects e) \<noteq> None
          \<and> ew_connect ew (sm_connects e + 1) \<noteq> None
          \<and> ew_connect ew (sm_connects e + 2) \<noteq> None"
  then have x: "reconnect ew e =
              e\<lparr>sm_mode := ERROR, sm_connected := False,
                sm_connects := sm_connects e + 3,
                sm_trace := sm_trace e @ (if sm_connected e then [Disconnect] else [])
                  @ [Sleep 5000, Connect, Sleep 10000, Connect, Sleep 10000, Connect]\<rparr>"
    using reconnect_exhausted [OF run, of ew] by simp
  show "reconnect ew e =
              e\<lparr>sm_mode := ERROR, sm_connected := False,
                sm_connects := sm_connects e + 3,
                sm_trace := sm_trace e @ (if sm_connected e then [Disconnect] else [])
                  @ [Sleep 5000, Connect, Sleep 10000, Connect, Sleep 10000, Connect]\<rparr>"
    by (rule x)
  show r: "sm_is_running (reconnect ew e)"
    using run by (simp add: x)
  show "live_while ew (Suc m) (reconnect ew e)
              = live_while ew m (live_iteration ew (reconnect ew e))"
    using r by simp
  have n: "\<not> sm_connected (reconnect ew e)" "sm_connects (reconnect ew e) = sm_connects e + 3"
    by (simp_all add: x)
  have eq4: "Suc (sm_connects e + 3) = sm_connects e + 4" by simp
  show "live_iteration ew (reconnect ew e) =
              (case ew_connect ew (sm_connects e + 3) of
                 None \<Rightarrow>
                   capture_pass ew
                     ((did Connect ((reconnect ew e)\<lparr>sm_connects := sm_connects e + 4\<rparr>))
                        \<lparr>sm_connected := True\<rparr>)
               | Some msg \<Rightarrow>
                   reconnect ew
                     (log_error ew
                        (did Connect ((reconnect ew e)\<lparr>sm_connects := sm_connects e + 4\<rparr>))
                        (''Device error in live mode: '' @ msg)))"
    unfolding live_iteration_unconnected [OF n(1)] n(2) eq4 by (rule refl)
next
  assume "ew_connect ew (sm_connects e) = None"
  from reconnect_first [OF run this]
  show "sm_connects (reconnect ew e) = sm_connects e + 1"
   and "sm_trace (reconnect ew e) =
              sm_trace e @ (if sm_connected e then [Disconnect] else [])
              @ [Sleep 5000, Connect]"
    by simp_all
next
  assume "ew_connect ew (sm_connects e) \<noteq> None
          \<and> ew_connect ew (sm_connects e + 1) = None"
  then have "ew_connect ew (sm_connects e) \<noteq> None" "ew_connect ew (Suc (sm_connects e)) = None"
    by simp_all
  from reconnect_second [OF run this]
  show "sm_connects (reconnect ew e) = sm_connects e + 2"
   and "sm_trace (reconnect ew e) =
              sm_trace e @ (if sm_connected e then [Disconnect] else [])
              @ [Sleep 5000, Connect, Sleep 10000, Connect]"
    by simp_all
next
  assume "ew_connect ew (sm_connects e) \<noteq> None
          \<and> ew_connect ew (sm_connects e + 1) \<noteq> None
          \<and> ew_connect ew (sm_connects e + 2) = None"
  then have "ew_connect ew (sm_connects e) \<noteq> None"
      "ew_connect ew (Suc (sm_connects e)) \<noteq> None"
      "ew_connect ew (Suc (Suc (sm_connects e))) = None"
    by simp_all
  from reconnect_third [OF run this]
  show "sm_connects (reconnect ew e) = sm_connects e + 3"
   and "sm_trace (reconnect ew e) =
              sm_trace e @ (if sm_connected e then [Disconnect] else [])
              @ [Sleep 5000, Connect, Sleep 10000, Connect, Sleep 10000, Connect]"
    by simp_all
next
  assume s: "ew_connect ew (sm_connects e) = None
          \<or> ew_connect ew (sm_connects e + 1) = None
          \<or> ew_connect ew (sm_connects e + 2) = None"
  have c: "sm_connected (reconnect ew e) \<and> sm_is_running (reconnect ew e)"
  proof (cases "ew_connect ew (sm_connects e) = None")
    case True
    from reconnect_first [OF run True] show ?thesis by simp
  next
    case f1: False
    show ?thesis
    proof (cases "ew_connect ew (Suc (sm_connects e)) = None")
      case True
      from reconnect_second [OF run f1 True] show ?thesis by simp
    next
      case f2: False
      with s f1 have "ew_connect ew (Suc (Suc (sm_connects e))) = None" by simp
      from reconnect_third [OF run f1 f2 this] show ?thesis by simp
    qed
  qed
  show "sm_connected (reconnect ew e)" using c by simp
  show "sm_is_running (reconnect ew e)" using c by simp
  show "live_while ew (Suc m) (reconnect ew e)
              = live_while ew m (capture_pass ew (reconnect ew e))"
    using c by (simp add: live_iteration_connected)
qed

theorem reconnect_exhaustion_sets_error_and_engine_goes_on_witness:
  "sm_mode (reconnect device_away engine_started) = ERROR
   \<and> sm_is_running (reconnect device_away engine_started)
   \<and> sm_trace (reconnect device_away engine_started)
     = [Sleep 5000, Connect, Sleep 10000, Connect, Sleep 10000, Connect]
   \<and> live_while device_away 1 (reconnect device_away engine_started)
     = reconnect device_away
         (log_error device_away
            (did Connect ((reconnect device_away engine_started)\<lparr>sm_connects := 4\<rparr>))
            ''Device error in live mode: timed out'')
   \<and> sm_connected (reconnect device_blinks engine_started)
   \<and> sm_trace (reconnect device_blinks engine_started)
     = [Sleep 5000, Connect, Sleep 10000, Connect]"
proof -
  have run: "sm_is_running engine_started"
    by (simp add: engine_started_def start_def engine1_def StreamManager_def Let_def)
  have z: "sm_connects engine_started = 0" "sm_trace engine_started = []"
          "\<not> sm_connected engine_started"
    by (simp_all add: engine_started_def start_def engine1_def StreamManager_def Let_def)
  have a: "\<And>k. k < 4 \<Longrightarrow> ew_connect device_away k = Some ''timed out''"
    by (simp add: device_away_def server_up_def server_down_def)
  have b: "ew_connect device_blinks 0 = Some ''timed out''"
          "ew_connect device_blinks (Suc 0) = None"
    by (simp_all add: device_blinks_def server_up_def server_down_def)
  have h: "ew_connect device_away (sm_connects engine_started) \<noteq> None
          \<and> ew_connect device_away (sm_connects engine_started + 1) \<noteq> None
          \<and> ew_connect device_away (sm_connects engine_started + 2) \<noteq> None"
    by (simp add: z a)
  note t = reconnect_exhaustion_sets_error_and_engine_goes_on [OF run, of device_away 0]
  from t h have eq: "reconnect device_away engine_started =
              engine_started\<lparr>sm_mode := ERROR, sm_connected := False,
                sm_connects := sm_connects engine_started + 3,
                sm_trace := sm_trace engine_started
                  @ (if sm_connected engine_started then [Disconnect] else [])
                  @ [Sleep 5000, Connect, Sleep 10000, Connect, Sleep 10000, Connect]\<rparr>"
    by blast
  from t h have r: "sm_is_running (reconnect device_away engine_started)"
    by blast
  from t h have lw: "live_while device_away (Suc 0) (reconnect device_away engine_started)
              = live_while device_away 0
                  (live_iteration device_away (reconnect device_away engine_started))"
    by blast
  from t h have li: "live_iteration device_away (reconnect device_away engine_started) =
              (case ew_connect device_away (sm_connects engine_started + 3) of
                 None \<Rightarrow>
                   capture_pass device_away
                     ((did Connect ((reconnect device_away engine_started)
                         \<lparr>sm_connects := sm_connects engine_started + 4\<rparr>))
                        \<lparr>sm_connected := True\<rparr>)
               | Some msg \<Rightarrow>
                   reconnect device_away
                     (log_error device_away
                        (did Connect ((reconnect device_away engine_started)
                           \<lparr>sm_connects := sm_connects engine_started + 4\<rparr>))
                        (''Device error in live mode: '' @ msg)))"
    by blast
  have c3: "ew_connect device_away (sm_connects engine_started + 3) = Some ''timed out''"
    by (simp add: z a)
  have m: "sm_mode (reconnect device_away engine_started) = ERROR"
    by (subst eq) simp
  have tr: "sm_trace (reconnect device_away engine_started)
     = [Sleep 5000, Connect, Sleep 10000, Connect, Sleep 10000, Connect]"
    by (subst eq) (simp add: z)
  have li': "live_iteration device_away (reconnect device_away engine_started) =
     reconnect device_away
         (log_error device_away
            (did Connect ((reconnect device_away engine_started)\<lparr>sm_connects := 4\<rparr>))
            ''Device error in live mode: timed out'')"
    unfolding li c3 by (simp add: z)
  have l1: "live_while device_away 1 (reconnect device_away engine_started)
     = reconnect device_away
         (log_error device_away
            (did Connect ((reconnect device_away engine_started)\<lparr>sm_connects := 4\<rparr>))
            ''Device error in live mode: timed out'')"
    using lw li' by simp
  have h2: "ew_connect device_blinks (sm_connects engine_started) \<noteq> None
          \<and> ew_connect device_blinks (sm_connects engine_started + 1) = None"
    by (simp add: z b)
  note t2 = reconnect_exhaustion_sets_error_and_engine_goes_on [OF run, of device_blinks 0]
  from t2 h2 have tr2: "sm_trace (reconnect device_blinks engine_started) =
              sm_trace engine_started
              @ (if sm_connected engine_started then [Disconnect] else [])
              @ [Sleep 5000, Connect, Sleep 10000, Connect]"
    by blast
  from t2 h2 have c2: "sm_connected (reconnect device_blinks engine_started)"
    by blast
  from tr2 have tr2': "sm_trace (reconnect device_blinks engine_started)
     = [Sleep 5000, Connect, Sleep 10000, Connect]"
    by (simp add: z)
  from m r tr l1 c2 tr2' show ?thesis by blast
qed


section \<open>The coordinator and the registry\<close>
















































end
